theory Spec2Isabelle
  imports Complex_Main
begin

section \<open>JavaScript values used by the Akash node helpers\<close>

text \<open>
  Numbers. A JavaScript number is modelled as \<open>NaN\<close>, one of the two infinities, or a
  finite value. Finite values are exact rationals: rounding error of the binary
  floating-point representation, overflow to an infinity and the sign of zero are not
  modelled. Every arithmetic statement below is a statement about this exact arithmetic.
\<close>

datatype jsnum = NaN | PInf | NInf | Num rat

fun js_lt :: "jsnum \<Rightarrow> jsnum \<Rightarrow> bool" where
  "js_lt (Num x) (Num y) = (x < y)"
| "js_lt (Num x) PInf = True"
| "js_lt NInf (Num y) = True"
| "js_lt NInf PInf = True"
| "js_lt _ _ = False"

definition js_le :: "jsnum \<Rightarrow> jsnum \<Rightarrow> bool" where
  "js_le a b \<longleftrightarrow> js_lt a b \<or> (a = b \<and> a \<noteq> NaN)"

definition js_gt :: "jsnum \<Rightarrow> jsnum \<Rightarrow> bool" where
  "js_gt a b \<longleftrightarrow> js_lt b a"

text \<open>Truthiness of a number: \<open>0\<close> and \<open>NaN\<close> are falsy.\<close>

definition js_truthy :: "jsnum \<Rightarrow> bool" where
  "js_truthy a \<longleftrightarrow> a \<noteq> NaN \<and> a \<noteq> Num 0"

text \<open>Multiplication and division by a positive finite constant (\<open>x * k\<close>, \<open>x / k\<close>).\<close>

fun js_times :: "jsnum \<Rightarrow> rat \<Rightarrow> jsnum" where
  "js_times (Num x) k = Num (x * k)"
| "js_times a k = a"

fun js_over :: "jsnum \<Rightarrow> rat \<Rightarrow> jsnum" where
  "js_over (Num x) k = Num (x / k)"
| "js_over a k = a"

text \<open>\<open>Math.round\<close> rounds to the nearest integer, halves towards plus infinity.\<close>

fun Math_round :: "jsnum \<Rightarrow> jsnum" where
  "Math_round (Num x) = Num (of_int \<lfloor>x + 1 / 2\<rfloor>)"
| "Math_round a = a"

subsection \<open>Characters and decimal digits\<close>

definition isDigit :: "char \<Rightarrow> bool" where
  "isDigit c \<longleftrightarrow> (48::nat) \<le> of_char c \<and> of_char c \<le> (57::nat)"

definition digitVal :: "char \<Rightarrow> nat" where
  "digitVal c = of_char c - 48"

definition digitChar :: "nat \<Rightarrow> char" where
  "digitChar d = ''0123456789'' ! d"

text \<open>
  White space as matched by \<open>\s\<close>, \<open>trim\<close>, \<open>parseInt\<close> and \<open>parseFloat\<close>, restricted to
  the ASCII range: tab, line feed, vertical tab, form feed, carriage return, space.
\<close>

definition isSpace :: "char \<Rightarrow> bool" where
  "isSpace c \<longleftrightarrow> of_char c \<in> {9, 10, 11, 12, 13, 32 :: nat}"

text \<open>\<open>toLowerCase\<close> on the ASCII range: the letters A to Z are moved up by 32.\<close>

definition lowerChar :: "char \<Rightarrow> char" where
  "lowerChar c =
     (if (65::nat) \<le> of_char c \<and> of_char c \<le> (90::nat) then char_of (of_char c + 32 :: nat)
      else c)"

definition toLowerCase :: "string \<Rightarrow> string" where
  "toLowerCase s = map lowerChar s"

definition trim :: "string \<Rightarrow> string" where
  "trim s = rev (dropWhile isSpace (rev (dropWhile isSpace s)))"

text \<open>The value of a sequence of decimal digits, most significant first.\<close>

definition digitsVal :: "string \<Rightarrow> nat" where
  "digitsVal ds = foldl (\<lambda>a c. 10 * a + digitVal c) 0 ds"

text \<open>The decimal numeral of an integer, as \<open>toString\<close> prints an integral number.\<close>

fun natString :: "nat \<Rightarrow> string" where
  "natString n =
     (if n < 10 then [digitChar n] else natString (n div 10) @ [digitChar (n mod 10)])"

definition intString :: "int \<Rightarrow> string" where
  "intString i = (if i < 0 then CHR ''-'' # natString (nat (- i)) else natString (nat i))"

text \<open>
  \<open>Number.prototype.toString\<close>. The helpers call it only on results of \<open>Math.round\<close>,
  so only integral values are printed faithfully; of any other finite value the integer
  part is printed. The exponent notation used from \<open>1e21\<close> on is not modelled.
\<close>

fun Number_toString :: "jsnum \<Rightarrow> string" where
  "Number_toString NaN = ''NaN''"
| "Number_toString PInf = ''Infinity''"
| "Number_toString NInf = ''-Infinity''"
| "Number_toString (Num x) = intString \<lfloor>x\<rfloor>"

subsection \<open>parseInt and parseFloat\<close>

definition stripSign :: "string \<Rightarrow> bool \<times> string" where
  "stripSign t =
     (case t of
        [] \<Rightarrow> (False, [])
      | c # r \<Rightarrow>
          if c = CHR ''-'' then (True, r)
          else if c = CHR ''+'' then (False, r)
          else (False, t))"

text \<open>
  \<open>parseInt(s, 10)\<close>: leading white space is skipped, a sign is read, and the longest
  run of decimal digits that follows gives the value; without a digit the result is NaN.
\<close>

definition parseInt :: "string \<Rightarrow> jsnum" where
  "parseInt s =
     (let (neg, u) = stripSign (dropWhile isSpace s);
          ds = takeWhile isDigit u
      in if ds = [] then NaN
         else if neg then Num (- of_nat (digitsVal ds))
         else Num (of_nat (digitsVal ds)))"

definition pow10 :: "int \<Rightarrow> rat" where
  "pow10 e = (if 0 \<le> e then 10 ^ nat e else 1 / 10 ^ nat (- e))"

text \<open>The value of the exponent part at the head of a string; 0 when there is none.\<close>

definition exponentPart :: "string \<Rightarrow> int" where
  "exponentPart r =
     (case r of
        [] \<Rightarrow> 0
      | c # r' \<Rightarrow>
          if c = CHR ''e'' \<or> c = CHR ''E'' then
            (let (neg, d) = stripSign r';
                 ds = takeWhile isDigit d
             in if ds = [] then 0
                else if neg then - int (digitsVal ds)
                else int (digitsVal ds))
          else 0)"

text \<open>
  \<open>parseFloat\<close>: leading white space is skipped and the longest prefix that is a decimal
  literal (sign, \<open>Infinity\<close>, or digits with an optional fraction and exponent) is
  converted; NaN when no prefix is one.
\<close>

definition parseFloat :: "string \<Rightarrow> jsnum" where
  "parseFloat s =
     (let (neg, u) = stripSign (dropWhile isSpace s)
      in if take 8 u = ''Infinity'' then (if neg then NInf else PInf)
         else
           let ip = takeWhile isDigit u;
               r1 = dropWhile isDigit u;
               fp = (case r1 of [] \<Rightarrow> [] | c # r \<Rightarrow>
                       if c = CHR ''.'' then takeWhile isDigit r else []);
               r2 = (case r1 of [] \<Rightarrow> [] | c # r \<Rightarrow>
                       if c = CHR ''.'' then dropWhile isDigit r else r1)
           in if ip = [] \<and> fp = [] then NaN
              else
                let mant = of_nat (digitsVal (ip @ fp)) / 10 ^ length fp * pow10 (exponentPart r2)
                in Num (if neg then - mant else mant))"

section \<open>The amount converter\<close>

datatype error = Error string | TypeError | RangeError | SyntaxError

definition UAKT_PER_AKT :: rat where
  "UAKT_PER_AKT = 1000000"

text \<open>The argument of \<open>aktToUakt\<close> is a number or a string.\<close>

datatype num_or_str = IsNum jsnum | IsStr string

definition aktToUakt :: "num_or_str \<Rightarrow> error + string" where
  "aktToUakt akt =
     (let aktNum = (case akt of IsStr s \<Rightarrow> parseFloat s | IsNum n \<Rightarrow> n)
      in if aktNum = NaN then
           Inl (Error (''Invalid AKT amount: '' @ (case akt of IsStr s \<Rightarrow> s | IsNum n \<Rightarrow> ''NaN'')))
         else if js_lt aktNum (Num 0) then Inl (Error ''Amount cannot be negative'')
         else Inr (Number_toString (Math_round (js_times aktNum UAKT_PER_AKT))))"

text \<open>
  The regular expression \<open>/^(\d+(?:\.\d+)?)\s*([KMGTP]i?)?$/i\<close> of \<open>parseMemorySize\<close>.
  A match returns the two groups; the second is empty when the unit is absent. The
  expression is deterministic: each of \<open>\d+\<close> and \<open>\s*\<close> has to take the whole run, because
  nothing that may follow it matches a digit or a white space.
\<close>

definition isUnit :: "string \<Rightarrow> bool" where
  "isUnit u =
     (case u of
        [c] \<Rightarrow> c \<in> set ''KMGTPkmgtp''
      | [c, d] \<Rightarrow> c \<in> set ''KMGTPkmgtp'' \<and> (d = CHR ''i'' \<or> d = CHR ''I'')
      | _ \<Rightarrow> False)"

definition matchMemorySize :: "string \<Rightarrow> (string \<times> string) option" where
  "matchMemorySize s =
     (let ip = takeWhile isDigit s;
          r1 = dropWhile isDigit s
      in if ip = [] then None
         else
           let frac = (case r1 of [] \<Rightarrow> [] | c # r \<Rightarrow>
                         if c = CHR ''.'' then takeWhile isDigit r else []);
               num = (if frac = [] then ip else ip @ ''.'' @ frac);
               r2 = (if frac = [] then r1 else dropWhile isDigit (tl r1));
               r3 = dropWhile isSpace r2
           in if r3 = [] then Some (num, [])
              else if isUnit r3 then Some (num, r3)
              else None)"

definition multipliers :: "string \<Rightarrow> rat option" where
  "multipliers = map_of
     [('''', 1),
      (''k'', 1000),
      (''ki'', 1024),
      (''m'', 1000000),
      (''mi'', 1024 * 1024),
      (''g'', 1000000000),
      (''gi'', 1024 * 1024 * 1024),
      (''t'', 1000000000000),
      (''ti'', 1024 * 1024 * 1024 * 1024),
      (''p'', 1000000000000000),
      (''pi'', 1024 * 1024 * 1024 * 1024 * 1024)]"

definition parseMemorySize :: "string \<Rightarrow> error + jsnum" where
  "parseMemorySize sizeStr =
     (case matchMemorySize sizeStr of
        None \<Rightarrow> Inl (Error (''Invalid memory size format: '' @ sizeStr))
      | Some (m1, m2) \<Rightarrow>
          let value = parseFloat m1;
              unit = toLowerCase m2
          in (case multipliers unit of
                None \<Rightarrow> Inl (Error (''Unknown memory unit: '' @ unit))
              | Some k \<Rightarrow> Inr (Math_round (js_times value k))))"

text \<open>The regular expression \<open>/^(\d+)m$/\<close> of \<open>parseCpuUnits\<close>; a match returns the group.\<close>

definition matchMilli :: "string \<Rightarrow> string option" where
  "matchMilli t =
     (if t \<noteq> [] \<and> last t = CHR ''m'' \<and> butlast t \<noteq> [] \<and> list_all isDigit (butlast t)
      then Some (butlast t) else None)"

definition parseCpuUnits :: "string \<Rightarrow> error + jsnum" where
  "parseCpuUnits cpuStr =
     (let trimmed = toLowerCase (trim cpuStr)
      in case matchMilli trimmed of
           Some m1 \<Rightarrow> Inr (js_over (parseInt m1) 1000)
         | None \<Rightarrow>
             let value = parseFloat trimmed
             in if value \<noteq> NaN then Inr value
                else Inl (Error (''Invalid CPU units format: '' @ cpuStr)))"

section \<open>The SDL manifest\<close>

text \<open>
  The manifest follows the interfaces of the node's type definitions. An object keyed by
  strings is an association list in the order of \<open>Object.entries\<close> (a JavaScript object
  has no repeated key). A field is optional where the interface marks it optional or
  where the code tests for its presence; for a field that the code requires to be of type
  number, \<open>None\<close> stands for a value that is absent or not a number. Fields that no
  function modelled here reads (\<open>command\<close>, \<open>args\<close>, \<open>params\<close>, the GPU attributes)
  are left out.
\<close>

record ISDLExposeTo =
  to_global :: "bool option"
  to_service :: "string option"

record ISDLExpose =
  port :: "jsnum option"
  as_port :: "jsnum option"
  proto :: "string option"
  expose_to :: "ISDLExposeTo list option"
  accept :: "string list option"

record ISDLService =
  image :: "string option"
  env :: "string list option"
  expose :: "ISDLExpose list option"

record ISDLStorage =
  storage_size :: string
  storage_name :: "string option"
  storage_class :: "string option"

datatype storage_field = StorageList "ISDLStorage list" | StorageOne ISDLStorage

record ISDLCpu =
  cpu_units :: "num_or_str option"

record ISDLMemory =
  memory_size :: "string option"

record ISDLGpu =
  gpu_units :: "jsnum option"

record ISDLResources =
  cpu :: "ISDLCpu option"
  memory :: "ISDLMemory option"
  storage :: "storage_field option"
  gpu :: "ISDLGpu option"

record ISDLComputeProfile =
  resources :: "ISDLResources option"

record ISDLPricing =
  denom :: "string option"
  amount :: "jsnum option"

record ISignedBy =
  anyOf :: "string list option"
  allOf :: "string list option"

record ISDLPlacementProfile =
  attributes :: "(string \<times> string) list option"
  signedBy :: "ISignedBy option"
  pricing :: "(string \<times> ISDLPricing) list option"

record ISDLServiceConfig =
  profile :: string
  count :: "jsnum option"

record ISDLProfiles =
  compute :: "(string \<times> ISDLComputeProfile) list option"
  placement :: "(string \<times> ISDLPlacementProfile) list option"

record ISDLManifest =
  version :: "string option"
  services :: "(string \<times> ISDLService) list option"
  profiles :: "ISDLProfiles option"
  deployment :: "(string \<times> (string \<times> ISDLServiceConfig) list) list option"

text \<open>Truthiness of an optional string (\<open>!x\<close> holds for undefined and for the empty string)
  and of a number or string.\<close>

definition truthyStr :: "string option \<Rightarrow> bool" where
  "truthyStr x \<longleftrightarrow> (case x of None \<Rightarrow> False | Some s \<Rightarrow> s \<noteq> [])"

definition truthyUnits :: "num_or_str option \<Rightarrow> bool" where
  "truthyUnits x \<longleftrightarrow>
     (case x of None \<Rightarrow> False | Some (IsNum n) \<Rightarrow> js_truthy n | Some (IsStr s) \<Rightarrow> s \<noteq> [])"

text \<open>\<open>obj.a?.b?.[key]\<close> on the optional sections of the manifest.\<close>

definition lookupService :: "ISDLManifest \<Rightarrow> string \<Rightarrow> ISDLService option" where
  "lookupService sdl k = (case services sdl of None \<Rightarrow> None | Some m \<Rightarrow> map_of m k)"

definition lookupCompute :: "ISDLManifest \<Rightarrow> string \<Rightarrow> ISDLComputeProfile option" where
  "lookupCompute sdl k =
     (case profiles sdl of None \<Rightarrow> None
      | Some p \<Rightarrow> (case compute p of None \<Rightarrow> None | Some m \<Rightarrow> map_of m k))"

definition lookupPlacement :: "ISDLManifest \<Rightarrow> string \<Rightarrow> ISDLPlacementProfile option" where
  "lookupPlacement sdl k =
     (case profiles sdl of None \<Rightarrow> None
      | Some p \<Rightarrow> (case placement p of None \<Rightarrow> None | Some m \<Rightarrow> map_of m k))"

subsection \<open>parseSDL\<close>

text \<open>
  \<open>yaml.load\<close> belongs to an external library and is a parameter: it raises a
  \<open>YAMLException\<close> or returns a document, which is an object (read as a manifest) or
  something else (\<open>null\<close>, a scalar).
\<close>

datatype yaml_result = YAMLException string | YamlDocument "ISDLManifest option"

definition parseSDL :: "(string \<Rightarrow> yaml_result) \<Rightarrow> string \<Rightarrow> error + ISDLManifest" where
  "parseSDL load sdlContent =
     (case load sdlContent of
        YAMLException msg \<Rightarrow> Inl (Error (''SDL YAML parsing error: '' @ msg))
      | YamlDocument None \<Rightarrow> Inl (Error ''Invalid SDL: must be a valid YAML object'')
      | YamlDocument (Some parsed) \<Rightarrow> Inr parsed)"

subsection \<open>validateSDL\<close>

text \<open>
  \<open>parseCpuUnits(String(units))\<close>. For a string this is \<open>parseCpuUnits\<close>. The string of a
  finite number is a decimal literal without the letter m that \<open>parseFloat\<close> reads back as
  the same number; the strings of NaN and of the infinities, in lower case, are no
  decimal literals.
\<close>

definition parseCpuUnitsOf :: "num_or_str \<Rightarrow> error + jsnum" where
  "parseCpuUnitsOf u =
     (case u of
        IsStr s \<Rightarrow> parseCpuUnits s
      | IsNum (Num x) \<Rightarrow> Inr (Num x)
      | IsNum n \<Rightarrow> Inl (Error (''Invalid CPU units format: '' @ Number_toString n)))"

definition quoted :: "string \<Rightarrow> string" where
  "quoted s = [CHR 0x27] @ s @ [CHR 0x27]"

definition validateExpose :: "string \<Rightarrow> nat \<times> ISDLExpose \<Rightarrow> string list" where
  "validateExpose prefix ie =
     (case ie of (i, e) \<Rightarrow>
        (if (case port e of None \<Rightarrow> True | Some p \<Rightarrow> \<not> js_truthy p)
         then [prefix @ '': expose['' @ natString i @ ''] missing or invalid '' @ quoted ''port'']
         else []) @
        (if truthyStr (proto e) \<and> the (proto e) \<notin> set [''tcp'', ''udp'']
         then [prefix @ '': expose['' @ natString i @ ''] invalid proto '' @ quoted (the (proto e))
                 @ '' (must be tcp or udp)'']
         else []))"

definition validateService :: "string \<Rightarrow> ISDLService \<Rightarrow> string list" where
  "validateService name service =
     (let prefix = ''Service '' @ quoted name
      in (if \<not> truthyStr (image service)
          then [prefix @ '': missing required field '' @ quoted ''image'']
          else []) @
         (case expose service of
            None \<Rightarrow> []
          | Some es \<Rightarrow> concat (map (validateExpose prefix) (enumerate 0 es))))"

definition validateComputeProfile :: "string \<Rightarrow> ISDLComputeProfile \<Rightarrow> string list" where
  "validateComputeProfile name prof =
     (let prefix = ''Compute profile '' @ quoted name
      in case resources prof of
           None \<Rightarrow> [prefix @ '': missing required field '' @ quoted ''resources'']
         | Some res \<Rightarrow>
             (if \<not> (case cpu res of None \<Rightarrow> False | Some c \<Rightarrow> truthyUnits (cpu_units c))
              then [prefix @ '': missing required field '' @ quoted ''resources.cpu.units'']
              else (case parseCpuUnitsOf (the (cpu_units (the (cpu res)))) of
                      Inl e \<Rightarrow> [prefix @ '': invalid cpu.units format'']
                    | Inr cpuValue \<Rightarrow>
                        if js_le cpuValue (Num 0) then [prefix @ '': cpu.units must be positive'']
                        else [])) @
             (if \<not> (case memory res of None \<Rightarrow> False | Some m \<Rightarrow> truthyStr (memory_size m))
              then [prefix @ '': missing required field '' @ quoted ''resources.memory.size'']
              else (case parseMemorySize (the (memory_size (the (memory res)))) of
                      Inl e \<Rightarrow> [prefix @ '': invalid memory.size format'']
                    | Inr memValue \<Rightarrow>
                        if js_le memValue (Num 0) then [prefix @ '': memory.size must be positive'']
                        else [])) @
             (if storage res = None
              then [prefix @ '': missing required field '' @ quoted ''resources.storage'']
              else []) @
             (case gpu res of
                None \<Rightarrow> []
              | Some g \<Rightarrow>
                  if (case gpu_units g of None \<Rightarrow> True | Some n \<Rightarrow> js_lt n (Num 0))
                  then [prefix @ '': gpu.units must be a non-negative number'']
                  else []))"

definition validatePricing :: "string \<Rightarrow> string \<times> ISDLPricing \<Rightarrow> string list" where
  "validatePricing prefix cp =
     (case cp of (computeProfile, pr) \<Rightarrow>
        (if \<not> truthyStr (denom pr)
         then [prefix @ '': pricing for '' @ quoted computeProfile @ '' missing '' @ quoted ''denom'']
         else []) @
        (if (case amount pr of None \<Rightarrow> True | Some a \<Rightarrow> js_le a (Num 0))
         then [prefix @ '': pricing for '' @ quoted computeProfile @ '' must have positive ''
                 @ quoted ''amount'']
         else []))"

definition validatePlacementProfile :: "string \<Rightarrow> ISDLPlacementProfile \<Rightarrow> string list" where
  "validatePlacementProfile name prof =
     (let prefix = ''Placement profile '' @ quoted name
      in if (case pricing prof of None \<Rightarrow> True | Some ps \<Rightarrow> ps = [])
         then [prefix @ '': missing required field '' @ quoted ''pricing'']
         else concat (map (validatePricing prefix) (the (pricing prof))))"

definition validateDeploymentService ::
    "ISDLManifest \<Rightarrow> string \<times> ISDLServiceConfig \<Rightarrow> string list" where
  "validateDeploymentService sdl sc =
     (case sc of (serviceName, config) \<Rightarrow>
        (if lookupService sdl serviceName = None
         then [''Deployment references undefined service: '' @ serviceName]
         else []) @
        (if lookupCompute sdl (profile config) = None
         then [''Deployment references undefined compute profile: '' @ profile config]
         else []) @
        (if (case count config of None \<Rightarrow> True | Some n \<Rightarrow> js_lt n (Num 1))
         then [''Invalid count for service '' @ serviceName @ '': must be a positive integer'']
         else []))"

definition validateDeployment ::
    "ISDLManifest \<Rightarrow> string \<times> (string \<times> ISDLServiceConfig) list \<Rightarrow> string list" where
  "validateDeployment sdl pp =
     (case pp of (placementName, pl) \<Rightarrow>
        (if lookupPlacement sdl placementName = None
         then [''Deployment references undefined placement profile: '' @ placementName]
         else []) @
        concat (map (validateDeploymentService sdl) pl))"

record validation =
  valid :: bool
  errors :: "string list"

definition validationErrors :: "ISDLManifest \<Rightarrow> string list" where
  "validationErrors sdl =
     (if \<not> truthyStr (version sdl) then [''Missing required field: version'']
      else if the (version sdl) \<noteq> ''2.0'' \<and> the (version sdl) \<noteq> ''2.1''
      then [''Unsupported SDL version: '' @ the (version sdl) @ ''. Supported versions: 2.0, 2.1'']
      else []) @
     (if (case services sdl of None \<Rightarrow> True | Some ss \<Rightarrow> ss = [])
      then [''Missing required field: services (at least one service required)'']
      else concat (map (\<lambda>(serviceName, service). validateService serviceName service)
                     (the (services sdl)))) @
     (case profiles sdl of
        None \<Rightarrow> [''Missing required field: profiles'']
      | Some ps \<Rightarrow>
          (if (case compute ps of None \<Rightarrow> True | Some cs \<Rightarrow> cs = [])
           then [''Missing required field: profiles.compute'']
           else concat (map (\<lambda>(profileName, prof). validateComputeProfile profileName prof)
                          (the (compute ps)))) @
          (if (case placement ps of None \<Rightarrow> True | Some cs \<Rightarrow> cs = [])
           then [''Missing required field: profiles.placement'']
           else concat (map (\<lambda>(profileName, prof). validatePlacementProfile profileName prof)
                          (the (placement ps))))) @
     (if (case deployment sdl of None \<Rightarrow> True | Some ds \<Rightarrow> ds = [])
      then [''Missing required field: deployment'']
      else concat (map (validateDeployment sdl) (the (deployment sdl))))"

definition validateSDL :: "ISDLManifest \<Rightarrow> validation" where
  "validateSDL sdl =
     (let errors = validationErrors sdl
      in \<lparr>valid = (length errors = 0), errors = errors\<rparr>)"

section \<open>From the manifest to deployment groups\<close>

text \<open>
  A function that may throw returns a sum, \<open>Inl\<close> the error. \<open>ebind\<close> runs the next step on
  a result, \<open>mapE\<close> and \<open>foldE\<close> are the loops that stop at the first error, and
  \<open>defined\<close> reads a value whose absence makes the next property access a \<open>TypeError\<close>.
\<close>

definition ebind :: "error + 'a \<Rightarrow> ('a \<Rightarrow> error + 'b) \<Rightarrow> error + 'b" where
  "ebind r f = (case r of Inl e \<Rightarrow> Inl e | Inr v \<Rightarrow> f v)"

fun mapE :: "('a \<Rightarrow> error + 'b) \<Rightarrow> 'a list \<Rightarrow> error + 'b list" where
  "mapE f [] = Inr []"
| "mapE f (x # xs) = ebind (f x) (\<lambda>y. ebind (mapE f xs) (\<lambda>ys. Inr (y # ys)))"

fun foldE :: "('s \<Rightarrow> 'a \<Rightarrow> error + 's) \<Rightarrow> 's \<Rightarrow> 'a list \<Rightarrow> error + 's" where
  "foldE f acc [] = Inr acc"
| "foldE f acc (x # xs) = ebind (f acc x) (\<lambda>acc'. foldE f acc' xs)"

definition defined :: "'a option \<Rightarrow> error + 'a" where
  "defined x = (case x of None \<Rightarrow> Inl TypeError | Some v \<Rightarrow> Inr v)"

text \<open>
  The group specification of the chain message. Attributes are pairs of key and value.
  The \<open>gpu\<close> entry of the resource units is left out: it prints a number that need not
  be integral, and no step of it can throw.
\<close>

record IStorageResource =
  sr_name :: string
  sr_quantity :: string
  sr_attributes :: "(string \<times> string) list option"

record IEndpoint =
  kind :: nat
  sequenceNumber :: nat

record IResourceUnits =
  cpu_val :: string
  memory_val :: string
  storage_units :: "IStorageResource list"
  endpoints :: "IEndpoint list option"

record IPrice =
  price_denom :: "string option"
  price_amount :: string

record IResourceGroup =
  group_resources :: IResourceUnits
  group_count :: "jsnum option"
  price :: IPrice

record IPlacementRequirements =
  req_attributes :: "(string \<times> string) list option"
  req_signedBy :: "ISignedBy option"

record IGroupSpec =
  group_name :: string
  requirements :: IPlacementRequirements
  spec_resources :: "IResourceGroup list"

record ICoin =
  coin_denom :: string
  coin_amount :: string

definition convertStorage :: "nat \<times> ISDLStorage \<Rightarrow> error + IStorageResource" where
  "convertStorage is =
     (case is of (index, s) \<Rightarrow>
        ebind (parseMemorySize (storage_size s)) (\<lambda>q.
          Inr \<lparr>sr_name =
                 (if truthyStr (storage_name s) then the (storage_name s)
                  else if index = 0 then ''default''
                  else ''storage-'' @ natString index),
               sr_quantity = Number_toString q,
               sr_attributes =
                 (if truthyStr (storage_class s) then Some [(''class'', the (storage_class s))]
                  else None)\<rparr>))"

definition exposeEndpoint :: "nat \<times> ISDLExpose \<Rightarrow> IEndpoint" where
  "exposeEndpoint ie =
     (case ie of (index, e) \<Rightarrow>
        \<lparr>kind = (if (case expose_to e of None \<Rightarrow> False
                     | Some ts \<Rightarrow> list_ex (\<lambda>t. to_global t = Some True) ts)
                 then 1 else 0),
         sequenceNumber = index\<rparr>)"

definition convertResources ::
    "ISDLResources option \<Rightarrow> ISDLService option \<Rightarrow> error + IResourceUnits" where
  "convertResources rsrc service =
     ebind (defined rsrc) (\<lambda>res.
     ebind (defined (cpu res)) (\<lambda>c.
     ebind (case cpu_units c of None \<Rightarrow> parseCpuUnits ''undefined''
            | Some u \<Rightarrow> parseCpuUnitsOf u) (\<lambda>cpuValue.
     let cpuMillis = Math_round (js_times cpuValue 1000) in
     ebind (defined (memory res)) (\<lambda>m.
     ebind (defined (memory_size m)) (\<lambda>sz.
     ebind (parseMemorySize sz) (\<lambda>memoryBytes.
     ebind (defined (storage res)) (\<lambda>st.
     let storageList = (case st of StorageList l \<Rightarrow> l | StorageOne s \<Rightarrow> [s]) in
     ebind (mapE convertStorage (enumerate 0 storageList)) (\<lambda>storageResources.
     ebind (defined service) (\<lambda>svc.
       Inr \<lparr>cpu_val = Number_toString cpuMillis,
            memory_val = Number_toString memoryBytes,
            storage_units = storageResources,
            endpoints =
              (case expose svc of
                 None \<Rightarrow> None
               | Some es \<Rightarrow>
                   if es = [] then None
                   else Some (map exposeEndpoint (enumerate 0 es)))\<rparr>)))))))))"

text \<open>\<open>aktToUakt(pricing.amount)\<close>; an absent amount is \<open>undefined\<close>, which is not a number.\<close>

definition priceUaktOf :: "ISDLPricing \<Rightarrow> error + string" where
  "priceUaktOf pr =
     (case amount pr of
        None \<Rightarrow> Inl (Error ''Invalid AKT amount: undefined'')
      | Some a \<Rightarrow> aktToUakt (IsNum a))"

text \<open>The body of the inner loop of \<open>sdlToGroups\<close>: one resource entry per service.\<close>

definition resourceGroupOf ::
    "ISDLManifest \<Rightarrow> ISDLPlacementProfile option \<Rightarrow> string \<times> ISDLServiceConfig
       \<Rightarrow> error + IResourceGroup" where
  "resourceGroupOf sdl placementProfile sc =
     (case sc of (serviceName, config) \<Rightarrow>
        ebind (defined (profiles sdl)) (\<lambda>ps.
        ebind (defined (compute ps)) (\<lambda>cm.
        let computeProfile = map_of cm (profile config) in
        ebind (defined placementProfile) (\<lambda>pp.
        ebind (defined (pricing pp)) (\<lambda>prm.
        let pricing = map_of prm (profile config) in
        ebind (defined computeProfile) (\<lambda>cp.
        ebind (defined (services sdl)) (\<lambda>sm.
        ebind (convertResources (resources cp) (map_of sm serviceName)) (\<lambda>resourceUnits.
        ebind (defined pricing) (\<lambda>pr.
        ebind (priceUaktOf pr) (\<lambda>amt.
          Inr \<lparr>group_resources = resourceUnits,
               group_count = count config,
               price = \<lparr>price_denom = denom pr, price_amount = amt\<rparr>\<rparr>))))))))))"

text \<open>The body of the outer loop: one group per entry of the deployment.\<close>

definition groupOf ::
    "ISDLManifest \<Rightarrow> string \<times> (string \<times> ISDLServiceConfig) list \<Rightarrow> error + IGroupSpec" where
  "groupOf sdl pp =
     (case pp of (placementName, pl) \<Rightarrow>
        ebind (defined (profiles sdl)) (\<lambda>ps.
        ebind (defined (placement ps)) (\<lambda>pm.
        let placementProfile = map_of pm placementName in
        ebind (mapE (resourceGroupOf sdl placementProfile) pl) (\<lambda>rs.
        ebind (defined placementProfile) (\<lambda>prof.
          Inr \<lparr>group_name = placementName,
               requirements =
                 \<lparr>req_attributes = attributes prof, req_signedBy = signedBy prof\<rparr>,
               spec_resources = rs\<rparr>)))))"

definition sdlToGroups :: "ISDLManifest \<Rightarrow> error + IGroupSpec list" where
  "sdlToGroups sdl = ebind (defined (deployment sdl)) (\<lambda>dep. mapE (groupOf sdl) dep)"

subsection \<open>calculateSDLPrice\<close>

text \<open>
  \<open>BigInt\<close> of a number: the number has to be integral. \<open>BigInt\<close> of a string: white
  space is trimmed, the empty string is 0, and the rest has to be a decimal numeral with an
  optional sign or a numeral with one of the prefixes 0x, 0o, 0b.
\<close>

definition BigInt_number :: "jsnum option \<Rightarrow> error + int" where
  "BigInt_number n =
     (case n of
        None \<Rightarrow> Inl TypeError
      | Some (Num x) \<Rightarrow> if of_int \<lfloor>x\<rfloor> = x then Inr \<lfloor>x\<rfloor> else Inl RangeError
      | Some v \<Rightarrow> Inl RangeError)"

definition radixDigit :: "char \<Rightarrow> nat" where
  "radixDigit c =
     (if isDigit c then digitVal c
      else if (97::nat) \<le> of_char c \<and> of_char c \<le> (102::nat) then of_char c - 87
      else if (65::nat) \<le> of_char c \<and> of_char c \<le> (70::nat) then of_char c - 55
      else 16)"

definition radixNumeral :: "nat \<Rightarrow> string \<Rightarrow> error + int" where
  "radixNumeral r ds =
     (if ds \<noteq> [] \<and> list_all (\<lambda>c. radixDigit c < r) ds
      then Inr (int (foldl (\<lambda>a c. r * a + radixDigit c) 0 ds))
      else Inl SyntaxError)"

definition BigInt_string :: "string \<Rightarrow> error + int" where
  "BigInt_string s =
     (let t = trim s
      in if t = [] then Inr 0
         else if take 2 t = ''0x'' \<or> take 2 t = ''0X'' then radixNumeral 16 (drop 2 t)
         else if take 2 t = ''0o'' \<or> take 2 t = ''0O'' then radixNumeral 8 (drop 2 t)
         else if take 2 t = ''0b'' \<or> take 2 t = ''0B'' then radixNumeral 2 (drop 2 t)
         else
           let (neg, u) = stripSign t
           in if u \<noteq> [] \<and> list_all isDigit u
              then Inr (if neg then - int (digitsVal u) else int (digitsVal u))
              else Inl SyntaxError)"

text \<open>The body of the inner loop of \<open>calculateSDLPrice\<close>.\<close>

definition addPrice ::
    "ISDLPlacementProfile option \<Rightarrow> int \<Rightarrow> string \<times> ISDLServiceConfig \<Rightarrow> error + int" where
  "addPrice placementProfile totalAmount sc =
     (case sc of (serviceName, config) \<Rightarrow>
        ebind (defined placementProfile) (\<lambda>pp.
        ebind (defined (pricing pp)) (\<lambda>prm.
        ebind (defined (map_of prm (profile config))) (\<lambda>pr.
        ebind (priceUaktOf pr) (\<lambda>priceUakt.
        ebind (BigInt_string priceUakt) (\<lambda>p.
        ebind (BigInt_number (count config)) (\<lambda>c.
          Inr (totalAmount + p * c))))))))"

definition addPlacement ::
    "ISDLManifest \<Rightarrow> int \<Rightarrow> string \<times> (string \<times> ISDLServiceConfig) list \<Rightarrow> error + int" where
  "addPlacement sdl totalAmount pp =
     (case pp of (placementName, pl) \<Rightarrow>
        ebind (defined (profiles sdl)) (\<lambda>ps.
        ebind (defined (placement ps)) (\<lambda>pm.
          foldE (addPrice (map_of pm placementName)) totalAmount pl)))"

definition calculateSDLPrice :: "ISDLManifest \<Rightarrow> error + ICoin" where
  "calculateSDLPrice sdl =
     ebind (defined (deployment sdl)) (\<lambda>dep.
     ebind (foldE (addPlacement sdl) 0 dep) (\<lambda>totalAmount.
       Inr \<lparr>coin_denom = ''uakt'', coin_amount = intString totalAmount\<rparr>))"



subsection \<open>createSimpleSDL\<close>

record SimpleSDLOptions =
  sdl_serviceName :: string
  sdl_image :: string
  sdl_cpu :: jsnum
  sdl_memory :: string
  sdl_storage :: string
  sdl_port :: "jsnum option"
  sdl_env :: "(string \<times> string) list option"
  sdl_replicas :: "jsnum option"
  sdl_maxPrice :: "jsnum option"

text \<open>The object that \<open>createSimpleSDL\<close> builds and hands to \<open>yaml.dump\<close>.\<close>

definition simpleSDLObject :: "SimpleSDLOptions \<Rightarrow> ISDLManifest" where
  "simpleSDLObject options =
     (let serviceName = sdl_serviceName options;
          replicas = (case sdl_replicas options of None \<Rightarrow> Num 1 | Some r \<Rightarrow> r);
          maxPrice = (case sdl_maxPrice options of None \<Rightarrow> Num 100 | Some m \<Rightarrow> m)
      in \<lparr>version = Some ''2.0'',
          services = Some
            [(serviceName,
              \<lparr>image = Some (sdl_image options),
               env = (case sdl_env options of
                        None \<Rightarrow> None
                      | Some kvs \<Rightarrow> Some (map (\<lambda>(k, v). k @ ''='' @ v) kvs)),
               expose = (case sdl_port options of
                           None \<Rightarrow> None
                         | Some p \<Rightarrow>
                             if js_truthy p
                             then Some [\<lparr>port = Some p, as_port = Some (Num 80), proto = None,
                                         expose_to = Some [\<lparr>to_global = Some True,
                                                             to_service = None\<rparr>],
                                         accept = None\<rparr>]
                             else None)\<rparr>)],
          profiles = Some
            \<lparr>compute = Some
               [(serviceName,
                 \<lparr>resources = Some
                    \<lparr>cpu = Some \<lparr>cpu_units = Some (IsNum (sdl_cpu options))\<rparr>,
                     memory = Some \<lparr>memory_size = Some (sdl_memory options)\<rparr>,
                     storage = Some (StorageList
                       [\<lparr>storage_size = sdl_storage options, storage_name = None,
                         storage_class = None\<rparr>]),
                     gpu = None\<rparr>\<rparr>)],
             placement = Some
               [(''dcloud'',
                 \<lparr>attributes = None, signedBy = None,
                  pricing = Some [(serviceName, \<lparr>denom = Some ''uakt'', amount = Some maxPrice\<rparr>)]\<rparr>)]\<rparr>,
          deployment = Some
            [(''dcloud'', [(serviceName, \<lparr>profile = serviceName, count = Some replicas\<rparr>)])]\<rparr>)"

text \<open>\<open>yaml.dump\<close> belongs to the same external library and is a parameter as well.\<close>

definition createSimpleSDL :: "(ISDLManifest \<Rightarrow> string) \<Rightarrow> SimpleSDLOptions \<Rightarrow> string" where
  "createSimpleSDL dump options = dump (simpleSDLObject options)"

section \<open>The deployment create operation\<close>

subsection \<open>sdlToManifest\<close>

text \<open>
  The manifest sent to the provider, with the fields that decide whether building it
  throws: per group its services with name, image, count and converted resources. The
  entries copied from the service without any conversion (\<open>command\<close>, \<open>args\<close>, \<open>env\<close>,
  \<open>expose\<close>, \<open>params\<close>) and the GPU are left out.
\<close>

record ManifestStorage =
  ms_name :: string
  ms_size :: string
  ms_attributes :: "(string \<times> string) list"

record ManifestResources =
  mr_cpu_units :: jsnum
  mr_memory_size :: string
  mr_storage :: "ManifestStorage list"

record ManifestService =
  service_name :: string
  service_image :: "string option"
  service_count :: "jsnum option"
  service_resources :: ManifestResources

record ManifestGroup =
  manifest_name :: string
  manifest_services :: "ManifestService list"

definition manifestStorage :: "nat \<times> ISDLStorage \<Rightarrow> error + ManifestStorage" where
  "manifestStorage is =
     (case is of (index, s) \<Rightarrow>
        ebind (parseMemorySize (storage_size s)) (\<lambda>q.
          Inr \<lparr>ms_name =
                 (if truthyStr (storage_name s) then the (storage_name s)
                  else if index = 0 then ''default''
                  else ''storage-'' @ natString index),
               ms_size = Number_toString q,
               ms_attributes =
                 (if truthyStr (storage_class s) then [(''class'', the (storage_class s))]
                  else [])\<rparr>))"

definition convertManifestResources :: "ISDLResources option \<Rightarrow> error + ManifestResources" where
  "convertManifestResources rsrc =
     ebind (defined rsrc) (\<lambda>res.
     ebind (defined (cpu res)) (\<lambda>c.
     ebind (case cpu_units c of None \<Rightarrow> parseCpuUnits ''undefined''
            | Some u \<Rightarrow> parseCpuUnitsOf u) (\<lambda>cpuValue.
     ebind (defined (memory res)) (\<lambda>m.
     ebind (defined (memory_size m)) (\<lambda>sz.
     ebind (parseMemorySize sz) (\<lambda>memoryBytes.
     ebind (defined (storage res)) (\<lambda>st.
     let storageList = (case st of StorageList l \<Rightarrow> l | StorageOne s \<Rightarrow> [s]) in
     ebind (mapE manifestStorage (enumerate 0 storageList)) (\<lambda>storageResources.
       Inr \<lparr>mr_cpu_units = Math_round (js_times cpuValue 1000),
            mr_memory_size = Number_toString memoryBytes,
            mr_storage = storageResources\<rparr>))))))))"

definition manifestServiceOf ::
    "ISDLManifest \<Rightarrow> string \<times> ISDLServiceConfig \<Rightarrow> error + ManifestService" where
  "manifestServiceOf sdl sc =
     (case sc of (serviceName, config) \<Rightarrow>
        ebind (defined (services sdl)) (\<lambda>sm.
        ebind (defined (profiles sdl)) (\<lambda>ps.
        ebind (defined (compute ps)) (\<lambda>cm.
        ebind (defined (map_of sm serviceName)) (\<lambda>service.
        ebind (defined (map_of cm (profile config))) (\<lambda>computeProfile.
        ebind (convertManifestResources (resources computeProfile)) (\<lambda>r.
          Inr \<lparr>service_name = serviceName,
               service_image = image service,
               service_count = count config,
               service_resources = r\<rparr>)))))))"

definition manifestGroupOf ::
    "ISDLManifest \<Rightarrow> string \<times> (string \<times> ISDLServiceConfig) list \<Rightarrow> error + ManifestGroup" where
  "manifestGroupOf sdl pp =
     (case pp of (placementName, pl) \<Rightarrow>
        ebind (mapE (manifestServiceOf sdl) pl) (\<lambda>ss.
          Inr \<lparr>manifest_name = placementName, manifest_services = ss\<rparr>))"

definition sdlToManifest :: "ISDLManifest \<Rightarrow> error + ManifestGroup list" where
  "sdlToManifest sdl = ebind (defined (deployment sdl)) (\<lambda>dep. mapE (manifestGroupOf sdl) dep)"

subsection \<open>Bids, options and the environment\<close>

record IBidId =
  bid_owner :: string
  bid_dseq :: string
  bid_gseq :: jsnum
  bid_oseq :: jsnum
  bid_provider :: string

record IBid =
  bidId :: IBidId
  bid_price :: ICoin

text \<open>
  The options of the node. Node parameters are values of the workflow's JSON, so the two
  numbers are finite.
\<close>

record CreateOptions =
  autoAcceptBid :: "bool option"
  bidWaitTime :: "rat option"
  preferredProvider :: "string option"
  maxPrice :: "rat option"
  sendManifest :: "bool option"
  validateOnly :: "bool option"

record ITransactionResult =
  tx_code :: int
  tx_transactionHash :: string
  tx_height :: int
  tx_gasUsed :: int

text \<open>
  The environment gives the outcome of every call that leaves the node: the YAML
  library, the two client factories and the calls of the clients. \<open>env_getBids k\<close> is the
  outcome of the request of polling round \<open>k\<close> and \<open>env_lag k\<close> the time in milliseconds
  by which that round exceeds the polling interval (the timer firing late and the
  duration of the request).
\<close>

record Env =
  env_yamlLoad :: "string \<Rightarrow> yaml_result"
  env_createCosmosClient :: "error option"
  env_createConsoleApiClient :: "error option"
  env_walletAddress :: string
  env_createDeployment :: "string \<Rightarrow> string \<Rightarrow> error + ITransactionResult \<times> string"
  env_getBids :: "nat \<Rightarrow> error + IBid list"
  env_lag :: "nat \<Rightarrow> nat"
  env_createLease :: "string \<Rightarrow> jsnum \<Rightarrow> jsnum \<Rightarrow> string \<Rightarrow> error + ITransactionResult"
  env_sendManifest :: "string \<Rightarrow> string \<Rightarrow> string \<Rightarrow> ManifestGroup list \<Rightarrow> error option"
  env_disconnect :: "error option"

text \<open>The calls made on the clients, in order.\<close>

datatype call =
    CreateDeployment string string
  | GetBids string string nat nat
  | CreateLease string jsnum jsnum string
  | SendManifest string string string "ManifestGroup list"
  | Disconnect

subsection \<open>The polling loop\<close>

definition pollInterval :: nat where
  "pollInterval = 3000"

definition bidPrice :: "IBid \<Rightarrow> jsnum" where
  "bidPrice b = parseInt (coin_amount (bid_price b))"

definition eligibleBids :: "CreateOptions \<Rightarrow> IBid list \<Rightarrow> IBid list" where
  "eligibleBids options bids =
     (case maxPrice options of
        None \<Rightarrow> bids
      | Some m \<Rightarrow> if 0 < m then filter (\<lambda>b. js_le (bidPrice b) (Num m)) bids else bids)"

definition preferredBid :: "CreateOptions \<Rightarrow> IBid list \<Rightarrow> IBid option" where
  "preferredBid options eligible =
     (if truthyStr (preferredProvider options)
      then find (\<lambda>b. bid_provider (bidId b) = the (preferredProvider options)) eligible
      else None)"

text \<open>\<open>reduce\<close> without an initial value, on a non-empty list, and its callback.\<close>

definition lowerBid :: "IBid \<Rightarrow> IBid \<Rightarrow> IBid" where
  "lowerBid prev cur = (if js_lt (bidPrice cur) (bidPrice prev) then cur else prev)"

definition lowestBid :: "IBid list \<Rightarrow> IBid" where
  "lowestBid eligible = foldl lowerBid (hd eligible) (tl eligible)"

record PollState =
  bestBid :: "IBid option"
  bids :: "IBid list"
  rounds :: nat
  elapsed :: nat

text \<open>
  One call of \<open>pollBids\<close> is one test of the loop condition followed, when it holds, by
  one polling round. \<open>elapsed\<close> is \<open>Date.now() - startTime\<close>, read after the wait and the
  request of the round; the computation between two readings takes no time.
\<close>

function pollBids ::
    "CreateOptions \<Rightarrow> (nat \<Rightarrow> error + IBid list) \<Rightarrow> (nat \<Rightarrow> nat) \<Rightarrow> rat \<Rightarrow> PollState \<Rightarrow> PollState" where
  "pollBids options getBids lag waitTime st =
     (if of_nat (elapsed st) < waitTime then
        (let now = elapsed st + pollInterval + lag (rounds st);
             st1 = st\<lparr>rounds := rounds st + 1, elapsed := now\<rparr>
         in case getBids (rounds st) of
              Inl e \<Rightarrow> pollBids options getBids lag waitTime st1
            | Inr bs \<Rightarrow>
                (let st2 = st1\<lparr>bids := bs\<rparr>
                 in if bs \<noteq> [] then
                      (let eligible = eligibleBids options bs
                       in case preferredBid options eligible of
                            Some p \<Rightarrow> st2\<lparr>bestBid := Some p\<rparr>
                          | None \<Rightarrow>
                              if eligible \<noteq> [] then
                                (let st3 = st2\<lparr>bestBid := Some (lowestBid eligible)\<rparr>
                                 in if 30000 < now then st3
                                    else pollBids options getBids lag waitTime st3)
                              else pollBids options getBids lag waitTime st2)
                    else pollBids options getBids lag waitTime st2))
      else st)"
  by pat_completeness auto
termination
  by (relation "measure (\<lambda>(options, getBids, lag, waitTime, st). nat \<lceil>waitTime\<rceil> - elapsed st)")
     (auto simp: pollInterval_def zless_nat_eq_int_zless less_ceiling_iff intro!: diff_less_mono2)

definition waitTimeMs :: "CreateOptions \<Rightarrow> rat" where
  "waitTimeMs options =
     (case bidWaitTime options of
        None \<Rightarrow> 120
      | Some w \<Rightarrow> if w = 0 then 120 else w) * 1000"

definition initialPoll :: PollState where
  "initialPoll = \<lparr>bestBid = None, bids = [], rounds = 0, elapsed = 0\<rparr>"

text \<open>
  What a polling round offers: the eligible bids of round \<open>k\<close> (none when the request
  fails) and the eligible bid of the preferred provider among them, if any.
\<close>

definition roundEligible :: "CreateOptions \<Rightarrow> (nat \<Rightarrow> error + IBid list) \<Rightarrow> nat \<Rightarrow> IBid list" where
  "roundEligible options getBids k =
     (case getBids k of Inl e \<Rightarrow> [] | Inr bs \<Rightarrow> eligibleBids options bs)"

definition roundPreferred :: "CreateOptions \<Rightarrow> (nat \<Rightarrow> error + IBid list) \<Rightarrow> nat \<Rightarrow> IBid option" where
  "roundPreferred options getBids k = preferredBid options (roundEligible options getBids k)"

text \<open>The state after the wait and the request of a round, before the bids are looked at.\<close>

definition afterRound :: "(nat \<Rightarrow> nat) \<Rightarrow> PollState \<Rightarrow> PollState" where
  "afterRound lag st =
     st\<lparr>rounds := rounds st + 1, elapsed := elapsed st + pollInterval + lag (rounds st)\<rparr>"

text \<open>The bid that round \<open>k\<close> selects when it has eligible bids.\<close>

definition selectedIn :: "CreateOptions \<Rightarrow> (nat \<Rightarrow> error + IBid list) \<Rightarrow> nat \<Rightarrow> IBid" where
  "selectedIn options getBids k =
     (case roundPreferred options getBids k of
        Some p \<Rightarrow> p
      | None \<Rightarrow> lowestBid (roundEligible options getBids k))"

text \<open>
  Example runs: three bids at 150, 90 and 80 uakt, a maximum price of 100, a wait time of
  30 s and rounds that each take 33 s; with and without a preferred provider.
\<close>

definition mkBid :: "string \<Rightarrow> string \<Rightarrow> IBid" where
  "mkBid provider amt =
     \<lparr>bidId = \<lparr>bid_owner = ''akash1owner'', bid_dseq = ''1001'', bid_gseq = Num 1,
                bid_oseq = Num 1, bid_provider = provider\<rparr>,
      bid_price = \<lparr>coin_denom = ''uakt'', coin_amount = amt\<rparr>\<rparr>"

definition threeBids :: "nat \<Rightarrow> error + IBid list" where
  "threeBids k = Inr [mkBid ''akash1a'' ''150'', mkBid ''akash1b'' ''90'', mkBid ''akash1c'' ''80'']"

definition slowRounds :: "nat \<Rightarrow> nat" where
  "slowRounds k = 30000"

definition cheapOptions :: CreateOptions where
  "cheapOptions = \<lparr>autoAcceptBid = None, bidWaitTime = Some 30, preferredProvider = None,
     maxPrice = Some 100, sendManifest = None, validateOnly = None\<rparr>"

definition preferOptions :: CreateOptions where
  "preferOptions = cheapOptions\<lparr>preferredProvider := Some ''akash1b''\<rparr>"

subsection \<open>execute\<close>

datatype lease_field = LeaseUnset | LeaseNull | Lease bool string string ICoin jsnum jsnum

record Response =
  success :: bool
  transactionHash :: string
  dseq :: string
  owner :: string
  deposit :: string
  height :: int
  gasUsed :: int
  bidsReceived :: "nat option"
  lease :: lease_field
  message :: "string option"
  manifestSent :: "bool option"
  manifestError :: "string option"

datatype node_output =
    ValidationReport ICoin "string list" "string list"
  | Deployed Response

text \<open>
  The message of an error. The text of the errors that the engine raises itself is not
  modelled; they are named.
\<close>

fun errorMessage :: "error \<Rightarrow> string" where
  "errorMessage (Error m) = m"
| "errorMessage TypeError = ''TypeError''"
| "errorMessage RangeError = ''RangeError''"
| "errorMessage SyntaxError = ''SyntaxError''"

definition joinLines :: "string list \<Rightarrow> string" where
  "joinLines xs = (case xs of [] \<Rightarrow> [] | x # r \<Rightarrow> x @ concat (map (\<lambda>y. CHR 0x0A # y) r))"

text \<open>
  The part of \<open>execute\<close> after the polling loop: accept the best bid and send the
  manifest. It returns the response or the error thrown, and the calls it made.
\<close>

definition acceptBestBid ::
    "Env \<Rightarrow> CreateOptions \<Rightarrow> ISDLManifest \<Rightarrow> string \<Rightarrow> Response \<Rightarrow> PollState
       \<Rightarrow> (error + Response) \<times> call list" where
  "acceptBestBid world options parsedSdl dseq0 response st =
     (let response1 = response\<lparr>bidsReceived := Some (length (bids st))\<rparr>
      in case bestBid st of
           None \<Rightarrow>
             (Inr (response1\<lparr>lease := LeaseNull,
                     message := Some ''No suitable bids received within the wait time''\<rparr>), [])
         | Some b \<Rightarrow>
             (let gseq = bid_gseq (bidId b);
                  oseq = bid_oseq (bidId b);
                  provider = bid_provider (bidId b);
                  leaseCall = CreateLease dseq0 gseq oseq provider
              in case env_createLease world dseq0 gseq oseq provider of
                   Inl e \<Rightarrow> (Inl e, [leaseCall])
                 | Inr leaseResult \<Rightarrow>
                     (let response2 = response1\<lparr>lease :=
                            Lease (tx_code leaseResult = 0) (tx_transactionHash leaseResult)
                              provider (bid_price b) gseq oseq\<rparr>
                      in if sendManifest options \<noteq> Some False \<and> tx_code leaseResult = 0 then
                           (case sdlToManifest parsedSdl of
                              Inl e \<Rightarrow>
                                (Inr (response2\<lparr>manifestSent := Some False,
                                        manifestError := Some (errorMessage e)\<rparr>), [leaseCall])
                            | Inr manifest \<Rightarrow>
                                (case env_sendManifest world (env_walletAddress world) dseq0 provider
                                        manifest of
                                   Some e \<Rightarrow>
                                     (Inr (response2\<lparr>manifestSent := Some False,
                                             manifestError := Some (errorMessage e)\<rparr>),
                                      [leaseCall,
                                       SendManifest (env_walletAddress world) dseq0 provider manifest])
                                 | None \<Rightarrow>
                                     (Inr (response2\<lparr>manifestSent := Some True\<rparr>),
                                      [leaseCall,
                                       SendManifest (env_walletAddress world) dseq0 provider manifest])))
                         else (Inr response2, [leaseCall]))))"

text \<open>The last step: disconnect, then return the response.\<close>

definition disconnectAndReturn :: "Env \<Rightarrow> Response \<Rightarrow> call list \<Rightarrow> (error + node_output) \<times> call list" where
  "disconnectAndReturn world response calls =
     (case env_disconnect world of
        Some e \<Rightarrow> (Inl e, calls @ [Disconnect])
      | None \<Rightarrow> (Inr (Deployed response), calls @ [Disconnect]))"

text \<open>
  \<open>execute\<close> of the deployment create operation. \<open>depositText\<close> is the text of the
  deposit parameter, which the operation only prints.
\<close>

definition execute :: "Env \<Rightarrow> string \<Rightarrow> string \<Rightarrow> CreateOptions \<Rightarrow> (error + node_output) \<times> call list" where
  "execute world sdl depositText options =
     (case parseSDL (env_yamlLoad world) sdl of
        Inl e \<Rightarrow> (Inl e, [])
      | Inr parsedSdl \<Rightarrow>
          (let validation = validateSDL parsedSdl
           in if \<not> valid validation then
                (Inl (Error (''SDL validation failed:'' @ [CHR 0x0A] @ joinLines (errors validation))), [])
              else if validateOnly options = Some True then
                (case calculateSDLPrice parsedSdl of
                   Inl e \<Rightarrow> (Inl e, [])
                 | Inr estimatedPrice \<Rightarrow>
                     (case ebind (defined (services parsedSdl)) (\<lambda>ss.
                           ebind (defined (profiles parsedSdl)) (\<lambda>ps.
                           ebind (defined (compute ps)) (\<lambda>cs.
                             Inr (ValidationReport estimatedPrice (map fst ss) (map fst cs))))) of
                        Inl e \<Rightarrow> (Inl e, [])
                      | Inr report \<Rightarrow> (Inr report, [])))
              else
                (case env_createCosmosClient world of
                   Some e \<Rightarrow> (Inl e, [])
                 | None \<Rightarrow>
                     (case env_createConsoleApiClient world of
                        Some e \<Rightarrow> (Inl e, [])
                      | None \<Rightarrow>
                          (case env_createDeployment world sdl depositText of
                             Inl e \<Rightarrow> (Inl e, [CreateDeployment sdl depositText])
                           | Inr (result, dseq0) \<Rightarrow>
                               (let response =
                                      \<lparr>success = (tx_code result = 0),
                                       transactionHash = tx_transactionHash result,
                                       dseq = dseq0,
                                       owner = env_walletAddress world,
                                       deposit = depositText @ '' AKT'',
                                       height = tx_height result,
                                       gasUsed = tx_gasUsed result,
                                       bidsReceived = None,
                                       lease = LeaseUnset,
                                       message = None,
                                       manifestSent = None,
                                       manifestError = None\<rparr>;
                                    calls0 = [CreateDeployment sdl depositText]
                                in if autoAcceptBid options \<noteq> Some False then
                                     (let st = pollBids options (env_getBids world) (env_lag world)
                                                 (waitTimeMs options) initialPoll;
                                          calls1 = calls0 @ replicate (rounds st)
                                                     (GetBids (env_walletAddress world) dseq0 1 1)
                                      in case acceptBestBid world options parsedSdl dseq0 response st of
                                           (Inl e, cs) \<Rightarrow> (Inl e, calls1 @ cs)
                                         | (Inr response', cs) \<Rightarrow>
                                             disconnectAndReturn world response' (calls1 @ cs))
                                   else disconnectAndReturn world response calls0))))))"

subsection \<open>What validateSDL accepts\<close>

text \<open>
  The conditions on a manifest, written as predicates on its parts. A number is positive
  for the code when the comparison \<open>n <= 0\<close> fails, and a count is large enough when
  \<open>n < 1\<close> fails; both comparisons fail on NaN.
\<close>

definition exposeOk :: "ISDLExpose \<Rightarrow> bool" where
  "exposeOk e \<longleftrightarrow>
     (case port e of None \<Rightarrow> False | Some p \<Rightarrow> js_truthy p) \<and>
     (case proto e of None \<Rightarrow> True | Some q \<Rightarrow> q = [] \<or> q = ''tcp'' \<or> q = ''udp'')"

definition serviceOk :: "ISDLService \<Rightarrow> bool" where
  "serviceOk s \<longleftrightarrow>
     truthyStr (image s) \<and> (case expose s of None \<Rightarrow> True | Some es \<Rightarrow> list_all exposeOk es)"

definition cpuOk :: "ISDLResources \<Rightarrow> bool" where
  "cpuOk res \<longleftrightarrow>
     (case cpu res of
        None \<Rightarrow> False
      | Some c \<Rightarrow>
          (case cpu_units c of
             None \<Rightarrow> False
           | Some u \<Rightarrow>
               (case parseCpuUnitsOf u of Inl e \<Rightarrow> False | Inr v \<Rightarrow> js_gt v (Num 0))))"

definition memoryOk :: "ISDLResources \<Rightarrow> bool" where
  "memoryOk res \<longleftrightarrow>
     (case memory res of
        None \<Rightarrow> False
      | Some m \<Rightarrow>
          (case memory_size m of
             None \<Rightarrow> False
           | Some s \<Rightarrow>
               (case parseMemorySize s of Inl e \<Rightarrow> False | Inr v \<Rightarrow> js_gt v (Num 0))))"

definition gpuOk :: "ISDLResources \<Rightarrow> bool" where
  "gpuOk res \<longleftrightarrow>
     (case gpu res of
        None \<Rightarrow> True
      | Some g \<Rightarrow> (case gpu_units g of None \<Rightarrow> False | Some n \<Rightarrow> \<not> js_lt n (Num 0)))"

definition computeOk :: "ISDLComputeProfile \<Rightarrow> bool" where
  "computeOk prof \<longleftrightarrow>
     (case resources prof of
        None \<Rightarrow> False
      | Some res \<Rightarrow> cpuOk res \<and> memoryOk res \<and> storage res \<noteq> None \<and> gpuOk res)"

definition pricingOk :: "ISDLPricing \<Rightarrow> bool" where
  "pricingOk pr \<longleftrightarrow>
     truthyStr (denom pr) \<and> (case amount pr of None \<Rightarrow> False | Some a \<Rightarrow> \<not> js_le a (Num 0))"

definition placementOk :: "ISDLPlacementProfile \<Rightarrow> bool" where
  "placementOk prof \<longleftrightarrow>
     (case pricing prof of
        None \<Rightarrow> False
      | Some ps \<Rightarrow> ps \<noteq> [] \<and> list_all (\<lambda>kp. pricingOk (snd kp)) ps)"

definition configOk :: "ISDLManifest \<Rightarrow> string \<times> ISDLServiceConfig \<Rightarrow> bool" where
  "configOk sdl sc \<longleftrightarrow>
     lookupService sdl (fst sc) \<noteq> None \<and>
     lookupCompute sdl (profile (snd sc)) \<noteq> None \<and>
     (case count (snd sc) of None \<Rightarrow> False | Some n \<Rightarrow> \<not> js_lt n (Num 1))"

definition deploymentOk ::
    "ISDLManifest \<Rightarrow> string \<times> (string \<times> ISDLServiceConfig) list \<Rightarrow> bool" where
  "deploymentOk sdl pp \<longleftrightarrow>
     lookupPlacement sdl (fst pp) \<noteq> None \<and> list_all (configOk sdl) (snd pp)"

definition accepts :: "ISDLManifest \<Rightarrow> bool" where
  "accepts sdl \<longleftrightarrow>
     (version sdl = Some ''2.0'' \<or> version sdl = Some ''2.1'') \<and>
     (case services sdl of
        None \<Rightarrow> False
      | Some ss \<Rightarrow> ss \<noteq> [] \<and> list_all (\<lambda>ks. serviceOk (snd ks)) ss) \<and>
     (case profiles sdl of
        None \<Rightarrow> False
      | Some ps \<Rightarrow>
          (case compute ps of
             None \<Rightarrow> False
           | Some cs \<Rightarrow> cs \<noteq> [] \<and> list_all (\<lambda>kc. computeOk (snd kc)) cs) \<and>
          (case placement ps of
             None \<Rightarrow> False
           | Some cs \<Rightarrow> cs \<noteq> [] \<and> list_all (\<lambda>kp. placementOk (snd kp)) cs)) \<and>
     (case deployment sdl of
        None \<Rightarrow> False
      | Some ds \<Rightarrow> ds \<noteq> [] \<and> list_all (deploymentOk sdl) ds)"







text \<open>
  Example manifests. \<open>webSDL\<close> is the manifest of the repository's tests (one service
  \<open>web\<close>, half a CPU, 512Mi of memory, 1Gi of storage, 1000 uakt). \<open>badProtoSDL\<close> is the
  same with protocol \<open>http\<close> on the exposed port, and \<open>nanCountSDL\<close> the same with the
  count NaN (\<open>.nan\<close> in YAML).
\<close>

definition webExpose :: ISDLExpose where
  "webExpose = \<lparr>port = Some (Num 80), as_port = Some (Num 80), proto = None,
     expose_to = Some [\<lparr>to_global = Some True, to_service = None\<rparr>], accept = None\<rparr>"

definition webService :: ISDLService where
  "webService = \<lparr>image = Some ''nginx:latest'', env = None, expose = Some [webExpose]\<rparr>"

definition webCompute :: ISDLComputeProfile where
  "webCompute = \<lparr>resources = Some
     \<lparr>cpu = Some \<lparr>cpu_units = Some (IsNum (Num (1 / 2)))\<rparr>,
      memory = Some \<lparr>memory_size = Some ''512Mi''\<rparr>,
      storage = Some (StorageList
        [\<lparr>storage_size = ''1Gi'', storage_name = None, storage_class = None\<rparr>]),
      gpu = None\<rparr>\<rparr>"

definition webPlacement :: ISDLPlacementProfile where
  "webPlacement = \<lparr>attributes = None, signedBy = None,
     pricing = Some [(''web'', \<lparr>denom = Some ''uakt'', amount = Some (Num 1000)\<rparr>)]\<rparr>"

definition webSDL :: ISDLManifest where
  "webSDL = \<lparr>version = Some ''2.0'',
     services = Some [(''web'', webService)],
     profiles = Some \<lparr>compute = Some [(''web'', webCompute)],
                      placement = Some [(''dcloud'', webPlacement)]\<rparr>,
     deployment = Some [(''dcloud'', [(''web'', \<lparr>profile = ''web'', count = Some (Num 1)\<rparr>)])]\<rparr>"

definition badProtoSDL :: ISDLManifest where
  "badProtoSDL = webSDL\<lparr>services :=
     Some [(''web'', webService\<lparr>expose := Some [webExpose\<lparr>proto := Some ''http''\<rparr>]\<rparr>)]\<rparr>"

definition nanCountSDL :: ISDLManifest where
  "nanCountSDL = webSDL\<lparr>deployment :=
     Some [(''dcloud'', [(''web'', \<lparr>profile = ''web'', count = Some NaN\<rparr>)])]\<rparr>"

text \<open>
  Decimal numerals, used to state what the converters accept: a non-empty run of digits,
  optionally followed by a point and a further run of digits, and the number it denotes.
\<close>

definition digits :: "string \<Rightarrow> bool" where
  "digits ds \<longleftrightarrow> ds \<noteq> [] \<and> list_all isDigit ds"

definition decimalText :: "string \<Rightarrow> string \<Rightarrow> string" where
  "decimalText ds fs = (if fs = [] then ds else ds @ ''.'' @ fs)"

definition decimalValue :: "string \<Rightarrow> string \<Rightarrow> rat" where
  "decimalValue ds fs = of_nat (digitsVal (ds @ fs)) / 10 ^ length fs"






text \<open>
  Further example data. \<open>missingPricingSDL\<close> is \<open>webSDL\<close> with the price of its
  placement given for a profile \<open>other\<close> instead of \<open>web\<close>. \<open>webGroups\<close> is the list of
  groups of \<open>webSDL\<close>.
\<close>

definition missingPricingSDL :: ISDLManifest where
  "missingPricingSDL = webSDL\<lparr>profiles := Some
     \<lparr>compute = Some [(''web'', webCompute)],
      placement = Some [(''dcloud'', webPlacement\<lparr>pricing :=
        Some [(''other'', \<lparr>denom = Some ''uakt'', amount = Some (Num 1000)\<rparr>)]\<rparr>)]\<rparr>\<rparr>"


text \<open>
  Example options for \<open>createSimpleSDL\<close>, and stand-ins for the YAML library on one
  document: \<open>dumpText\<close> prints every manifest as the same text and \<open>loadsTo m\<close> reads every
  text as the manifest \<open>m\<close>.
\<close>

definition webOptions :: SimpleSDLOptions where
  "webOptions = \<lparr>sdl_serviceName = ''web'', sdl_image = ''nginx:latest'',
     sdl_cpu = Num (1 / 2), sdl_memory = ''512Mi'', sdl_storage = ''1Gi'',
     sdl_port = Some (Num 80), sdl_env = None, sdl_replicas = None, sdl_maxPrice = None\<rparr>"

definition emptyImageOptions :: SimpleSDLOptions where
  "emptyImageOptions = webOptions\<lparr>sdl_image := []\<rparr>"

definition dumpText :: "ISDLManifest \<Rightarrow> string" where
  "dumpText m = ''sdl''"

definition loadsTo :: "ISDLManifest \<Rightarrow> string \<Rightarrow> yaml_result" where
  "loadsTo m s = YamlDocument (Some m)"

section \<open>Properties\<close>

subsection \<open>Evaluation and character lemmas\<close>

declare natString.simps [simp del]

lemma natString_small: "n < 10 \<Longrightarrow> natString n = [digitChar n]"
  by (subst natString.simps) simp

lemma natString_big: "10 \<le> n \<Longrightarrow> natString n = natString (n div 10) @ [digitChar (n mod 10)]"
  by (subst natString.simps) simp

lemma floor_rat_numeral [simp]: "\<lfloor>(numeral a :: rat) / numeral b\<rfloor> = numeral a div numeral b"
  using floor_divide_of_int_eq [of "numeral a" "numeral b", where ?'a = rat] by simp

lemma digitChar_isDigit: "d < 10 \<Longrightarrow> isDigit (digitChar d)"
proof -
  assume "d < 10"
  then have "d \<in> {0, 1, 2, 3, 4, 5, 6, 7, 8, 9}" by auto
  then show ?thesis by (auto simp: digitChar_def isDigit_def)
qed

lemma digit_not_space: "isDigit c \<Longrightarrow> \<not> isSpace c"
  by (auto simp: isDigit_def isSpace_def)
lemma digit_not_special:
  "isDigit c \<Longrightarrow> c \<noteq> CHR ''.'' \<and> c \<noteq> CHR ''-'' \<and> c \<noteq> CHR ''+'' \<and> c \<noteq> CHR ''I'' \<and> c \<noteq> CHR ''m''"
  by (auto simp: isDigit_def)
lemma takeWhile_digits:
  "list_all isDigit ds \<Longrightarrow> (r = [] \<or> \<not> isDigit (hd r)) \<Longrightarrow> takeWhile isDigit (ds @ r) = ds"
  by (cases r) (auto simp: list_all_iff)
lemma dropWhile_digits:
  "list_all isDigit ds \<Longrightarrow> (r = [] \<or> \<not> isDigit (hd r)) \<Longrightarrow> dropWhile isDigit (ds @ r) = r"
  by (cases r) (auto simp: list_all_iff)
lemma digits_head: "digits ds \<Longrightarrow> \<exists>d r. ds = d # r \<and> isDigit d \<and> list_all isDigit r"
  by (cases ds) (auto simp: digits_def)

lemma parseFloat_decimalText:
  assumes "digits ds" "list_all isDigit fs"
  shows "parseFloat (decimalText ds fs) = Num (decimalValue ds fs)"
proof -
  from assms(1) obtain d r where ds: "ds = d # r" "isDigit d" "list_all isDigit r"
    using digits_head by blast
  have all: "list_all isDigit ds" using assms(1) by (simp add: digits_def)
  define t where "t = decimalText ds fs"
  have hd: "t = d # (r @ (if fs = [] then [] else ''.'' @ fs))"
    by (simp add: t_def decimalText_def ds)
  have sp: "dropWhile isSpace t = t"
    using ds(2) digit_not_space by (simp add: hd)
  have sg: "stripSign t = (False, t)"
    using ds(2) digit_not_special [of d] by (simp add: hd stripSign_def)
  have inf: "take 8 t \<noteq> ''Infinity''"
    using ds(2) digit_not_special [of d] by (simp add: hd)
  have "parseFloat t = Num (decimalValue ds fs)"
  proof (cases "fs = []")
    case True
    then have t: "t = ds @ []" by (simp add: t_def decimalText_def)
    have tw: "takeWhile isDigit t = ds" "dropWhile isDigit t = []"
      using all by (simp_all add: t list_all_iff)
    have dv: "decimalValue ds fs = of_nat (digitsVal ds)"
      using True by (simp add: decimalValue_def)
    show ?thesis
      unfolding parseFloat_def sp sg dv using inf ds(1)
      by (simp add: tw Let_def exponentPart_def pow10_def)
  next
    case False
    then have t: "t = ds @ (CHR ''.'' # fs)" by (simp add: t_def decimalText_def)
    have tw: "takeWhile isDigit t = ds" "dropWhile isDigit t = CHR ''.'' # fs"
      unfolding t using all by (simp_all add: takeWhile_digits dropWhile_digits isDigit_def)
    have fw: "takeWhile isDigit fs = fs" "dropWhile isDigit fs = []"
      using assms(2) by (simp_all add: list_all_iff)
    show ?thesis
      unfolding parseFloat_def sp sg using inf ds(1)
      by (simp add: tw fw Let_def decimalValue_def exponentPart_def pow10_def)
  qed
  then show ?thesis by (simp add: t_def)
qed










lemma matchMemorySize_format:
  assumes "matchMemorySize s = Some (m1, m2)"
  shows "\<exists>ds fs ws. digits ds \<and> list_all isDigit fs \<and> list_all isSpace ws \<and> (m2 = [] \<or> isUnit m2)
           \<and> m1 = decimalText ds fs \<and> s = decimalText ds fs @ ws @ m2"
proof -
  define ip where "ip = takeWhile isDigit s"
  define r1 where "r1 = dropWhile isDigit s"
  define frac where "frac = (case r1 of [] \<Rightarrow> [] | c # r \<Rightarrow> if c = CHR ''.'' then takeWhile isDigit r else [])"
  define r2 where "r2 = (if frac = [] then r1 else dropWhile isDigit (tl r1))"
  define ws where "ws = takeWhile isSpace r2"
  define r3 where "r3 = dropWhile isSpace r2"
  have s: "s = ip @ r1" by (simp add: ip_def r1_def)
  have r2: "r2 = ws @ r3" by (simp add: ws_def r3_def)
  have ipd: "list_all isDigit ip" by (simp add: ip_def list_all_iff) (meson set_takeWhileD)
  have fd: "list_all isDigit frac"
    by (auto simp: frac_def list_all_iff split: list.splits dest: set_takeWhileD)
  have wsd: "list_all isSpace ws" by (simp add: ws_def list_all_iff) (meson set_takeWhileD)
  have r1: "r1 = (if frac = [] then r2 else ''.'' @ frac @ r2)"
    by (auto simp: frac_def r2_def split: list.splits if_splits)
  from assms have m: "ip \<noteq> []" "m1 = (if frac = [] then ip else ip @ ''.'' @ frac)"
    "m2 = r3" "r3 = [] \<or> isUnit r3"
    unfolding matchMemorySize_def ip_def [symmetric] r1_def [symmetric]
    by (auto simp: Let_def frac_def [symmetric] r2_def [symmetric] r3_def [symmetric]
        split: if_splits simp del: dropWhile_eq_Nil_conv)
  have "s = decimalText ip frac @ ws @ m2"
    using s r1 r2 m(3) by (simp add: decimalText_def)
  moreover have "digits ip" using m(1) ipd by (simp add: digits_def)
  moreover have "m1 = decimalText ip frac" using m(2) by (simp add: decimalText_def)
  ultimately show ?thesis using fd wsd m(3,4) by blast
qed






lemma lowerChar_point [simp]: "lowerChar CHR ''.'' = CHR ''.''" "lowerChar CHR ''m'' = CHR ''m''"
  by (simp_all add: lowerChar_def)


lemma parseInt_digits:
  assumes "digits ds"
  shows "parseInt ds = Num (of_nat (digitsVal ds))"
proof -
  from digits_head [OF assms] obtain d r where ds: "ds = d # r" "isDigit d" "list_all isDigit r" by blast
  have sp: "dropWhile isSpace ds = ds" using ds digit_not_space by simp
  have sg: "stripSign ds = (False, ds)" using ds digit_not_special [of d] by (simp add: stripSign_def)
  have tw: "takeWhile isDigit ds = ds" using ds by (simp add: list_all_iff)
  have ne: "ds \<noteq> []" using ds(1) by simp
  show ?thesis unfolding parseInt_def sp sg using ne by (simp add: tw)
qed









subsection \<open>C6: the unit converters\<close>


text \<open>The definitions that evaluate the converters on a literal string.\<close>

lemmas evs = digits_def decimalText_def decimalValue_def isDigit_def isSpace_def isUnit_def
  toLowerCase_def lowerChar_def char_of_eq_iff multipliers_def digitsVal_def digitVal_def




lemma js_not_le_gt: "v \<noteq> NaN \<Longrightarrow> (\<not> js_le v (Num 0)) = js_gt v (Num 0)"
  by (cases v) (auto simp: js_le_def js_gt_def)

lemma parseCpuUnits_not_NaN: "parseCpuUnits s = Inr v \<Longrightarrow> v \<noteq> NaN"
proof -
  assume a: "parseCpuUnits s = Inr v"
  show ?thesis
  proof (cases "matchMilli (toLowerCase (trim s))")
    case None
    with a show ?thesis by (auto simp: parseCpuUnits_def Let_def split: if_splits)
  next
    case (Some m1)
    then have "digits m1" by (auto simp: matchMilli_def digits_def split: if_splits)
    with a Some show ?thesis by (auto simp: parseCpuUnits_def parseInt_digits)
  qed
qed

lemma parseCpuUnitsOf_not_NaN: "parseCpuUnitsOf u = Inr v \<Longrightarrow> v \<noteq> NaN"
  by (auto simp: parseCpuUnitsOf_def parseCpuUnits_not_NaN split: num_or_str.splits jsnum.splits)

lemma parseMemorySize_not_NaN: "parseMemorySize s = Inr v \<Longrightarrow> v \<noteq> NaN"
proof -
  assume a: "parseMemorySize s = Inr v"
  then obtain m1 m2 where m: "matchMemorySize s = Some (m1, m2)"
    by (auto simp: parseMemorySize_def split: option.splits)
  from matchMemorySize_format [OF m] obtain ds fs where "digits ds" "list_all isDigit fs" "m1 = decimalText ds fs"
    by blast
  then have "parseFloat m1 = Num (decimalValue ds fs)" by (simp add: parseFloat_decimalText)
  with a m show ?thesis by (auto simp: parseMemorySize_def Let_def split: option.splits)
qed

lemma parseCpuUnits_empty: "parseCpuUnits [] = Inl (Error ''Invalid CPU units format: '')"
  by (simp add: parseCpuUnits_def trim_def toLowerCase_def matchMilli_def parseFloat_def stripSign_def)

lemma parseMemorySize_empty: "\<exists>e. parseMemorySize [] = Inl e"
  by (simp add: parseMemorySize_def matchMemorySize_def)

lemma falsy_units:
  assumes "\<not> truthyUnits (Some u)" "parseCpuUnitsOf u = Inr v"
  shows "v = Num 0"
  using assms parseCpuUnits_empty
  by (auto simp: truthyUnits_def js_truthy_def parseCpuUnitsOf_def split: num_or_str.splits jsnum.splits)

lemma cpu_check:
  "((if \<not> (case cpu res of None \<Rightarrow> False | Some c \<Rightarrow> truthyUnits (cpu_units c))
              then [a]
              else (case parseCpuUnitsOf (the (cpu_units (the (cpu res)))) of
                      Inl e \<Rightarrow> [b]
                    | Inr cpuValue \<Rightarrow>
                        if js_le cpuValue (Num 0) then [c]
                        else [])) = []) = cpuOk res"
proof (cases "cpu res")
  case None
  then show ?thesis by (simp add: cpuOk_def)
next
  case (Some x)
  show ?thesis
  proof (cases "cpu_units x")
    case None
    with Some show ?thesis by (simp add: cpuOk_def truthyUnits_def)
  next
    case u: (Some u)
    show ?thesis
    proof (cases "parseCpuUnitsOf u")
      case (Inl e)
      with Some u show ?thesis by (simp add: cpuOk_def)
    next
      case (Inr v)
      have nn: "v \<noteq> NaN" using parseCpuUnitsOf_not_NaN [OF Inr] .
      show ?thesis
      proof (cases "truthyUnits (Some u)")
        case True
        with Some u Inr show ?thesis
          using js_not_le_gt [OF nn] by (auto simp: cpuOk_def)
      next
        case False
        from falsy_units [OF False Inr] Some u Inr False show ?thesis
          by (simp add: cpuOk_def js_gt_def)
      qed
    qed
  qed
qed

lemma memory_check:
  "((if \<not> (case memory res of None \<Rightarrow> False | Some m \<Rightarrow> truthyStr (memory_size m))
              then [a]
              else (case parseMemorySize (the (memory_size (the (memory res)))) of
                      Inl e \<Rightarrow> [b]
                    | Inr memValue \<Rightarrow>
                        if js_le memValue (Num 0) then [c]
                        else [])) = []) = memoryOk res"
proof (cases "memory res")
  case None
  then show ?thesis by (simp add: memoryOk_def)
next
  case (Some x)
  show ?thesis
  proof (cases "memory_size x")
    case None
    with Some show ?thesis by (simp add: memoryOk_def truthyStr_def)
  next
    case u: (Some u)
    show ?thesis
    proof (cases "parseMemorySize u")
      case (Inl e)
      with Some u show ?thesis by (simp add: memoryOk_def)
    next
      case (Inr v)
      have nn: "v \<noteq> NaN" using parseMemorySize_not_NaN [OF Inr] .
      have "u \<noteq> []" using Inr parseMemorySize_empty by auto
      with Some u Inr show ?thesis
        using js_not_le_gt [OF nn] by (auto simp: memoryOk_def truthyStr_def)
    qed
  qed
qed

lemma validateComputeProfile_Nil: "(validateComputeProfile name prof = []) = computeOk prof"
  unfolding validateComputeProfile_def computeOk_def Let_def
  by (cases "resources prof")
     (auto simp: cpu_check memory_check gpuOk_def split: option.splits)

lemma validateExpose_Nil: "(validateExpose prefix (i, e) = []) = exposeOk e"
  by (auto simp: validateExpose_def exposeOk_def truthyStr_def split: option.splits)

lemma validateService_Nil: "(validateService name s = []) = serviceOk s"
proof -
  have "(\<forall>ie\<in>set (enumerate n es). validateExpose p ie = []) = list_all exposeOk es" for p n es
    by (induction es arbitrary: n) (auto simp: validateExpose_Nil)
  then show ?thesis
    by (auto simp: validateService_def serviceOk_def Let_def list_all_iff split: option.splits)
qed

lemma validatePricing_Nil: "(validatePricing prefix kp = []) = pricingOk (snd kp)"
  by (cases kp) (auto simp: validatePricing_def pricingOk_def split: option.splits)

lemma validatePlacementProfile_Nil: "(validatePlacementProfile name prof = []) = placementOk prof"
  by (auto simp: validatePlacementProfile_def placementOk_def Let_def list_all_iff
      validatePricing_Nil split: option.splits)

lemma validateDeploymentService_Nil: "(validateDeploymentService sdl sc = []) = configOk sdl sc"
  by (cases sc) (auto simp: validateDeploymentService_def configOk_def split: option.splits)

lemma validateDeployment_Nil: "(validateDeployment sdl pp = []) = deploymentOk sdl pp"
  by (cases pp) (auto simp: validateDeployment_def deploymentOk_def list_all_iff
      validateDeploymentService_Nil)

lemma version_check:
  "((if \<not> truthyStr v then [a]
      else if the v \<noteq> ''2.0'' \<and> the v \<noteq> ''2.1'' then [b] else []) = [])
   = (v = Some ''2.0'' \<or> v = Some ''2.1'')"
  by (cases v) (auto simp: truthyStr_def)

lemma services_check:
  "((if (case ss of None \<Rightarrow> True | Some ss \<Rightarrow> ss = []) then [a]
      else concat (map (\<lambda>(serviceName, service). validateService serviceName service) (the ss))) = [])
   = (case ss of None \<Rightarrow> False | Some ss \<Rightarrow> ss \<noteq> [] \<and> list_all (\<lambda>ks. serviceOk (snd ks)) ss)"
  by (cases ss) (auto simp: list_all_iff validateService_Nil case_prod_beta)

lemma compute_check:
  "((if (case cs of None \<Rightarrow> True | Some cs \<Rightarrow> cs = []) then [a]
      else concat (map (\<lambda>(profileName, prof). validateComputeProfile profileName prof) (the cs))) = [])
   = (case cs of None \<Rightarrow> False | Some cs \<Rightarrow> cs \<noteq> [] \<and> list_all (\<lambda>kc. computeOk (snd kc)) cs)"
  by (cases cs) (auto simp: list_all_iff validateComputeProfile_Nil case_prod_beta)

lemma placement_check:
  "((if (case cs of None \<Rightarrow> True | Some cs \<Rightarrow> cs = []) then [a]
      else concat (map (\<lambda>(profileName, prof). validatePlacementProfile profileName prof) (the cs))) = [])
   = (case cs of None \<Rightarrow> False | Some cs \<Rightarrow> cs \<noteq> [] \<and> list_all (\<lambda>kp. placementOk (snd kp)) cs)"
  by (cases cs) (auto simp: list_all_iff validatePlacementProfile_Nil case_prod_beta)

lemma deployment_check:
  "((if (case ds of None \<Rightarrow> True | Some ds \<Rightarrow> ds = []) then [a]
      else concat (map (validateDeployment sdl) (the ds))) = [])
   = (case ds of None \<Rightarrow> False | Some ds \<Rightarrow> ds \<noteq> [] \<and> list_all (deploymentOk sdl) ds)"
  by (cases ds) (auto simp: list_all_iff validateDeployment_Nil)

lemma validationErrors_Nil: "(validationErrors sdl = []) = accepts sdl"
  unfolding validationErrors_def accepts_def
  by (cases "profiles sdl")
     (simp_all add: version_check services_check compute_check placement_check deployment_check)

subsection \<open>C3: what validateSDL accepts\<close>


text \<open>The definitions that evaluate the predicates on the example manifests.\<close>

lemmas sdl_examples = webSDL_def webService_def webExpose_def webCompute_def webPlacement_def
  badProtoSDL_def nanCountSDL_def

lemmas accepts_defs = accepts_def serviceOk_def exposeOk_def computeOk_def cpuOk_def memoryOk_def
  gpuOk_def placementOk_def pricingOk_def deploymentOk_def configOk_def
  lookupService_def lookupCompute_def lookupPlacement_def truthyStr_def js_truthy_def
  js_le_def js_gt_def parseCpuUnitsOf_def


lemma parseMemorySize_512Mi: "parseMemorySize ''512Mi'' = Inr (Num 536870912)"
  by (simp add: parseMemorySize_def matchMemorySize_def parseFloat_def stripSign_def
      exponentPart_def pow10_def evs)



lemma parseMemorySize_1Gi: "parseMemorySize ''1Gi'' = Inr (Num 1073741824)"
  by (simp add: parseMemorySize_def matchMemorySize_def parseFloat_def stripSign_def
      exponentPart_def pow10_def evs)

lemmas groups_defs = sdlToGroups_def groupOf_def resourceGroupOf_def convertResources_def
  convertStorage_def exposeEndpoint_def priceUaktOf_def aktToUakt_def UAKT_PER_AKT_def
  ebind_def defined_def Let_def parseCpuUnitsOf_def truthyStr_def
  intString_def natString_small natString_big digitChar_def enumerate_eq_zip

lemma missingPricing_valid: "validationErrors missingPricingSDL = []"
  by (simp add: validationErrors_Nil accepts_defs sdl_examples missingPricingSDL_def parseMemorySize_512Mi)

subsection \<open>C2: sdlToGroups on an accepted manifest\<close>

text \<open>
  C2, at the failing input. \<open>validateSDL\<close> accepts the manifest whose placement prices
  another profile than the one the deployment names, and \<open>sdlToGroups\<close> then throws a
  \<open>TypeError\<close> (it reads \<open>denom\<close> of an undefined pricing entry) instead of returning the
  groups.
\<close>

theorem sdlToGroups_missing_pricing:
  "valid (validateSDL missingPricingSDL) \<and> errors (validateSDL missingPricingSDL) = [] \<and>
   sdlToGroups missingPricingSDL = Inl TypeError"
proof -
  have "sdlToGroups missingPricingSDL = Inl TypeError"
    by (simp add: groups_defs sdl_examples missingPricingSDL_def parseMemorySize_512Mi parseMemorySize_1Gi)
  then show ?thesis by (simp add: validateSDL_def Let_def missingPricing_valid)
qed








subsection \<open>C9: the price of a manifest\<close>





lemma js_le_not_lt: "js_le a b \<Longrightarrow> \<not> js_lt b a"
  by (cases a; cases b) (auto simp: js_le_def)

lemma js_gt_not_le: "js_gt a b \<Longrightarrow> \<not> js_le a b"
  by (cases a; cases b) (auto simp: js_le_def js_gt_def)

lemma simpleSDL_accepts:
  assumes "sdl_image options \<noteq> []" "sdl_cpu options = Num x" "0 < x"
    "parseMemorySize (sdl_memory options) = Inr v" "js_gt v (Num 0)"
    "case sdl_replicas options of None \<Rightarrow> True | Some r \<Rightarrow> js_le (Num 1) r"
    "case sdl_maxPrice options of None \<Rightarrow> True | Some m \<Rightarrow> js_gt m (Num 0)"
  shows "accepts (simpleSDLObject options)"
proof -
  have r: "\<not> js_lt (case sdl_replicas options of None \<Rightarrow> Num 1 | Some r \<Rightarrow> r) (Num 1)"
    using assms(6) js_le_not_lt by (cases "sdl_replicas options") auto
  have m: "\<not> js_le (case sdl_maxPrice options of None \<Rightarrow> Num 100 | Some m \<Rightarrow> m) (Num 0)"
    using assms(7) js_gt_not_le by (cases "sdl_maxPrice options") (auto simp: js_le_def)
  have e: "(case (case sdl_port options of None \<Rightarrow> None
             | Some p \<Rightarrow> if js_truthy p
                 then Some [\<lparr>port = Some p, as_port = Some (Num 80), proto = None,
                              expose_to = Some [\<lparr>to_global = Some True, to_service = None\<rparr>],
                              accept = None\<rparr>]
                 else None) of None \<Rightarrow> True | Some es \<Rightarrow> list_all exposeOk es)"
    by (cases "sdl_port options") (auto simp: exposeOk_def)
  show ?thesis
    using assms(1-5) r m e
    by (simp add: simpleSDLObject_def accepts_def serviceOk_def computeOk_def
        cpuOk_def memoryOk_def gpuOk_def placementOk_def pricingOk_def deploymentOk_def
        configOk_def lookupService_def lookupCompute_def lookupPlacement_def truthyStr_def
        parseCpuUnitsOf_def js_gt_def Let_def)
qed

subsection \<open>C10: from the SDL builder through the parser to the validator\<close>

text \<open>
  C10, as amended. Let the YAML library read the text it prints for the built manifest
  back as that manifest. For every options record with a non-empty image, a finite
  \<open>cpu > 0\<close>, a memory string that parses to a positive size, \<open>replicas >= 1\<close> or omitted
  and \<open>maxPrice > 0\<close> or omitted, \<open>parseSDL(createSimpleSDL(options))\<close> succeeds and
  \<open>validateSDL\<close> returns \<open>valid = true\<close> with an empty list of errors on its result.
\<close>

theorem createSimpleSDL_valid:
  assumes "load (dump (simpleSDLObject options)) = YamlDocument (Some (simpleSDLObject options))"
    and "sdl_image options \<noteq> []"
    and "sdl_cpu options = Num x" "0 < x"
    and "parseMemorySize (sdl_memory options) = Inr v" "js_gt v (Num 0)"
    and "case sdl_replicas options of None \<Rightarrow> True | Some r \<Rightarrow> js_le (Num 1) r"
    and "case sdl_maxPrice options of None \<Rightarrow> True | Some m \<Rightarrow> js_gt m (Num 0)"
  shows "\<exists>sdl. parseSDL load (createSimpleSDL dump options) = Inr sdl \<and>
           validateSDL sdl = \<lparr>valid = True, errors = []\<rparr>"
proof -
  have "parseSDL load (createSimpleSDL dump options) = Inr (simpleSDLObject options)"
    using assms(1) by (simp add: parseSDL_def createSimpleSDL_def)
  moreover have "validationErrors (simpleSDLObject options) = []"
    using simpleSDL_accepts [OF assms(2-8)] by (simp add: validationErrors_Nil)
  ultimately show ?thesis by (simp add: validateSDL_def)
qed

text \<open>C10, witness: the options of the repository's tests (nginx, half a CPU, 512Mi).\<close>

theorem createSimpleSDL_valid_witness:
  "\<exists>sdl. parseSDL (loadsTo (simpleSDLObject webOptions)) (createSimpleSDL dumpText webOptions) = Inr sdl \<and>
     validateSDL sdl = \<lparr>valid = True, errors = []\<rparr>"
  using createSimpleSDL_valid [of "loadsTo (simpleSDLObject webOptions)" dumpText webOptions
      "1 / 2" "Num 536870912"]
  by (simp add: loadsTo_def webOptions_def parseMemorySize_512Mi js_gt_def)

text \<open>
  C10, counterexample to the claim as stated: options that meet every condition of the
  claim and have an empty image. The text parses, and the validator rejects the result.
\<close>

theorem createSimpleSDL_counterexample:
  "js_gt (sdl_cpu emptyImageOptions) (Num 0) \<and>
   parseMemorySize (sdl_memory emptyImageOptions) = Inr (Num 536870912) \<and>
   parseMemorySize (sdl_storage emptyImageOptions) = Inr (Num 1073741824) \<and>
   sdl_replicas emptyImageOptions = None \<and> sdl_maxPrice emptyImageOptions = None \<and>
   parseSDL (loadsTo (simpleSDLObject emptyImageOptions))
     (createSimpleSDL dumpText emptyImageOptions) = Inr (simpleSDLObject emptyImageOptions) \<and>
   validateSDL (simpleSDLObject emptyImageOptions) =
     \<lparr>valid = False,
      errors = [''Service '' @ quoted ''web'' @ '': missing required field '' @ quoted ''image'']\<rparr>"
  by (simp add: emptyImageOptions_def webOptions_def parseMemorySize_512Mi parseMemorySize_1Gi
      js_gt_def parseSDL_def loadsTo_def createSimpleSDL_def simpleSDLObject_def
      validateSDL_def validationErrors_def validateService_def validateExpose_def
      validateComputeProfile_def validatePlacementProfile_def validatePricing_def
      validateDeployment_def validateDeploymentService_def Let_def
      lookupService_def lookupCompute_def lookupPlacement_def
      truthyStr_def truthyUnits_def js_truthy_def js_le_def parseCpuUnitsOf_def enumerate_eq_zip)

declare pollBids.simps [simp del]

lemma pollBids_stop: "\<not> of_nat (elapsed st) < W \<Longrightarrow> pollBids options getBids lag W st = st"
  by (subst pollBids.simps) simp

lemma pollBids_round:
  assumes "of_nat (elapsed st) < W"
  shows "pollBids options getBids lag W st =
     (case getBids (rounds st) of
        Inl e \<Rightarrow> pollBids options getBids lag W (afterRound lag st)
      | Inr bs \<Rightarrow>
          if bs \<noteq> [] then
            (case preferredBid options (eligibleBids options bs) of
               Some p \<Rightarrow> afterRound lag st\<lparr>bids := bs, bestBid := Some p\<rparr>
             | None \<Rightarrow>
                 if eligibleBids options bs \<noteq> [] then
                   (if 30000 < elapsed (afterRound lag st)
                    then afterRound lag st\<lparr>bids := bs, bestBid := Some (lowestBid (eligibleBids options bs))\<rparr>
                    else pollBids options getBids lag W
                           (afterRound lag st\<lparr>bids := bs, bestBid := Some (lowestBid (eligibleBids options bs))\<rparr>))
                 else pollBids options getBids lag W (afterRound lag st\<lparr>bids := bs\<rparr>))
          else pollBids options getBids lag W (afterRound lag st\<lparr>bids := bs\<rparr>))"
  using assms
  by (subst pollBids.simps) (simp add: afterRound_def Let_def split: sum.splits option.splits)

lemma pollBids_induct2 [consumes 0, case_names stop round]:
  fixes W :: rat and P :: "PollState \<Rightarrow> bool" and lag :: "nat \<Rightarrow> nat"
  assumes stop: "\<And>st. \<not> of_nat (elapsed st) < W \<Longrightarrow> P st"
    and round: "\<And>st. of_nat (elapsed st) < W \<Longrightarrow>
        (\<And>st'. rounds st' = rounds st + 1 \<Longrightarrow> elapsed st' = elapsed st + pollInterval + lag (rounds st) \<Longrightarrow> P st') \<Longrightarrow> P st"
  shows "P st"
proof (induction "nat \<lceil>W\<rceil> - elapsed st" arbitrary: st rule: less_induct)
  case less
  show ?case
  proof (cases "of_nat (elapsed st) < W")
    case False
    then show ?thesis by (rule stop)
  next
    case True
    show ?thesis
    proof (rule round [OF True])
      fix st' :: PollState assume a: "rounds st' = rounds st + 1" "elapsed st' = elapsed st + pollInterval + lag (rounds st)"
      have "elapsed st < nat \<lceil>W\<rceil>" using True by (simp add: zless_nat_eq_int_zless less_ceiling_iff)
      then have "nat \<lceil>W\<rceil> - elapsed st' < nat \<lceil>W\<rceil> - elapsed st"
        using a(2) by (simp add: pollInterval_def)
      then show "P st'" by (rule less)
    qed
  qed
qed


lemma preferredBid_Nil [simp]: "preferredBid options [] = None"
  by (simp add: preferredBid_def)

lemma eligibleBids_Nil [simp]: "eligibleBids options [] = []"
  by (simp add: eligibleBids_def split: option.splits)

lemma pollBids_cases [consumes 1, case_names preferred lowest continue]:
  fixes st :: PollState
  assumes run: "of_nat (elapsed st) < W"
    and preferred: "\<And>p. roundPreferred options getBids (rounds st) = Some p \<Longrightarrow>
        pollBids options getBids lag W st
          = afterRound lag st\<lparr>bids := bids (pollBids options getBids lag W st), bestBid := Some p\<rparr> \<Longrightarrow> Q"
    and lowest: "roundPreferred options getBids (rounds st) = None \<Longrightarrow>
        roundEligible options getBids (rounds st) \<noteq> [] \<Longrightarrow>
        30000 < elapsed st + pollInterval + lag (rounds st) \<Longrightarrow>
        pollBids options getBids lag W st
          = afterRound lag st\<lparr>bids := bids (pollBids options getBids lag W st),
              bestBid := Some (lowestBid (roundEligible options getBids (rounds st)))\<rparr> \<Longrightarrow> Q"
    and continue: "\<And>st' :: PollState. roundPreferred options getBids (rounds st) = None \<Longrightarrow>
        pollBids options getBids lag W st = pollBids options getBids lag W st' \<Longrightarrow>
        rounds st' = rounds st + 1 \<Longrightarrow>
        elapsed st' = elapsed st + pollInterval + lag (rounds st) \<Longrightarrow>
        bestBid st' = (if roundEligible options getBids (rounds st) = [] then bestBid st
                       else Some (lowestBid (roundEligible options getBids (rounds st)))) \<Longrightarrow> Q"
  shows Q
proof (cases "getBids (rounds st)")
  case (Inl e)
  show ?thesis
    by (rule continue [of "afterRound lag st"])
       (simp_all add: pollBids_round [OF run] Inl roundPreferred_def roundEligible_def afterRound_def)
next
  case (Inr bs)
  show ?thesis
  proof (cases "preferredBid options (eligibleBids options bs)")
    case (Some p)
    then have "bs \<noteq> []" by auto
    with Some show ?thesis
      by (intro preferred [of p])
         (simp_all add: pollBids_round [OF run] Inr roundPreferred_def roundEligible_def afterRound_def)
  next
    case None
    show ?thesis
    proof (cases "eligibleBids options bs \<noteq> [] \<and> 30000 < elapsed st + pollInterval + lag (rounds st)")
      case True
      then have "bs \<noteq> []" by auto
      with True None show ?thesis
        by (intro lowest)
           (simp_all add: pollBids_round [OF run] Inr roundPreferred_def roundEligible_def afterRound_def)
    next
      case False
      show ?thesis
      proof (cases "eligibleBids options bs = []")
        case True
        with None show ?thesis
          by (intro continue [of "afterRound lag st\<lparr>bids := bs\<rparr>"])
             (simp_all add: pollBids_round [OF run] Inr roundPreferred_def roundEligible_def afterRound_def)
      next
        case ne: False
        then have "bs \<noteq> []" by auto
        with ne None False show ?thesis
          by (intro continue [of "afterRound lag st\<lparr>bids := bs,
                 bestBid := Some (lowestBid (eligibleBids options bs))\<rparr>"])
             (simp_all add: pollBids_round [OF run] Inr roundPreferred_def roundEligible_def afterRound_def)
      qed
    qed
  qed
qed

lemma pollBids_progress:
  fixes st :: PollState
  shows "rounds st \<le> rounds (pollBids options getBids lag W st) \<and>
     elapsed st + pollInterval * (rounds (pollBids options getBids lag W st) - rounds st)
       \<le> elapsed (pollBids options getBids lag W st) \<and>
     (rounds (pollBids options getBids lag W st) = rounds st \<or>
      of_nat (elapsed st + pollInterval * (rounds (pollBids options getBids lag W st) - rounds st - 1)) < W)"
proof (induction st rule: pollBids_induct2 [where W = W and lag = lag])
  case (stop st)
  then show ?case by (simp add: pollBids_stop)
next
  case (round st)
  let ?r = "pollBids options getBids lag W st"
  from round.hyps show ?case
  proof (cases rule: pollBids_cases [where options = options and getBids = getBids and lag = lag])
    case (preferred p)
    have "rounds ?r = rounds st + 1" "elapsed ?r = elapsed st + pollInterval + lag (rounds st)"
      by (subst preferred(2), simp add: afterRound_def)+
    then show ?thesis using round.hyps by simp
  next
    case lowest
    have "rounds ?r = rounds st + 1" "elapsed ?r = elapsed st + pollInterval + lag (rounds st)"
      by (subst lowest(4), simp add: afterRound_def)+
    then show ?thesis using round.hyps by simp
  next
    case (continue st')
    note ih = round.IH [OF continue(3,4)]
    define R where "R = rounds ?r"
    define E where "E = elapsed ?r"
    define k where "k = rounds st"
    define e where "e = elapsed st"
    define l where "l = lag (rounds st)"
    have R': "rounds (pollBids options getBids lag W st') = R"
      and E': "elapsed (pollBids options getBids lag W st') = E"
      using continue(2) by (simp_all add: R_def E_def)
    have k': "rounds st' = k + 1" and e': "elapsed st' = e + 3000 + l"
      using continue(3,4) by (simp_all add: k_def e_def l_def pollInterval_def)
    from ih have 1: "k + 1 \<le> R" and 2: "e + 3000 + l + 3000 * (R - (k + 1)) \<le> E"
      and 3: "R = k + 1 \<or> rat_of_nat (e + 3000 + l + 3000 * (R - (k + 1) - 1)) < W"
      unfolding R' E' k' e' pollInterval_def by simp_all
    have run: "rat_of_nat e < W" using round.hyps by (simp add: e_def)
    have a: "k \<le> R" using 1 by simp
    have b: "e + 3000 * (R - k) \<le> E" using 1 2 by simp
    have c: "rat_of_nat (e + 3000 * (R - k - 1)) < W"
    proof (cases "R = k + 1")
      case True
      then show ?thesis using run by simp
    next
      case False
      with 3 have lt: "rat_of_nat (e + 3000 + l + 3000 * (R - (k + 1) - 1)) < W" by simp
      have "e + 3000 * (R - k - 1) \<le> e + 3000 + l + 3000 * (R - (k + 1) - 1)"
        using 1 False by simp
      then have "rat_of_nat (e + 3000 * (R - k - 1)) \<le> rat_of_nat (e + 3000 + l + 3000 * (R - (k + 1) - 1))"
        using of_nat_le_iff by blast
      with lt show ?thesis by simp
    qed
    show ?thesis using a b c unfolding R_def E_def k_def e_def pollInterval_def by simp
  qed
qed

subsection \<open>C5: the polling loop is bounded\<close>


lemma js_lt_chain: "js_lt c a \<Longrightarrow> \<not> js_lt x a \<Longrightarrow> \<not> js_lt x c"
  by (cases x; cases a; cases c) auto

lemma js_lt_irrefl [simp]: "\<not> js_lt a a"
  by (cases a) auto

lemma eligibleBids_price:
  assumes "b \<in> set (eligibleBids options bs)" "maxPrice options = Some m" "0 < m"
  shows "js_le (bidPrice b) (Num m)"
  using assms by (simp add: eligibleBids_def)

lemma preferredBid_Some:
  assumes "preferredBid options xs = Some p"
  shows "p \<in> set xs \<and> truthyStr (preferredProvider options) \<and>
     bid_provider (bidId p) = the (preferredProvider options)"
  using assms by (auto simp: preferredBid_def find_Some_iff split: if_splits)

lemma lowerBid_min:
  assumes "\<not> js_lt (bidPrice x) (bidPrice a)"
  shows "\<not> js_lt (bidPrice x) (bidPrice (lowerBid a c))"
  using assms js_lt_chain [of "bidPrice c" "bidPrice a" "bidPrice x"]
  by (cases "js_lt (bidPrice c) (bidPrice a)") (simp_all add: lowerBid_def)

lemma lowerBid_new: "\<not> js_lt (bidPrice c) (bidPrice (lowerBid a c))"
  by (cases "js_lt (bidPrice c) (bidPrice a)") (simp_all add: lowerBid_def)

lemma lowerBid_in: "lowerBid a c = a \<or> lowerBid a c = c"
  by (simp add: lowerBid_def)

lemma foldl_lowest:
  assumes "a \<in> S" "\<forall>x\<in>S. \<not> js_lt (bidPrice x) (bidPrice a)"
  shows "foldl lowerBid a xs \<in> S \<union> set xs \<and>
     (\<forall>x\<in>S \<union> set xs. \<not> js_lt (bidPrice x) (bidPrice (foldl lowerBid a xs)))"
  using assms
proof (induction xs arbitrary: a S)
  case Nil
  then show ?case by simp
next
  case (Cons c xs)
  have 1: "lowerBid a c \<in> insert c S" using Cons.prems(1) lowerBid_in [of a c] by auto
  have 2: "\<forall>x\<in>insert c S. \<not> js_lt (bidPrice x) (bidPrice (lowerBid a c))"
    using Cons.prems(2) lowerBid_min lowerBid_new by blast
  have 3: "insert c S \<union> set xs = S \<union> set (c # xs)" by simp
  from Cons.IH [OF 1 2] show ?case unfolding 3 by simp
qed

lemma lowestBid_min:
  assumes "xs \<noteq> []"
  shows "lowestBid xs \<in> set xs \<and> (\<forall>b\<in>set xs. \<not> js_lt (bidPrice b) (bidPrice (lowestBid xs)))"
proof -
  from assms obtain a r where xs: "xs = a # r" by (cases xs) auto
  have "a \<in> {a}" "\<forall>x\<in>{a}. \<not> js_lt (bidPrice x) (bidPrice a)" by simp_all
  from foldl_lowest [OF this, of r] show ?thesis
    by (simp add: lowestBid_def xs)
qed

lemma roundPreferred_eligible:
  "roundPreferred options getBids k = Some p \<Longrightarrow> roundEligible options getBids k \<noteq> []"
  by (auto simp: roundPreferred_def)

lemma pollBids_selection:
  fixes st :: PollState
  shows "(\<forall>k p. rounds st \<le> k \<and> k < rounds (pollBids options getBids lag W st) \<and>
            roundPreferred options getBids k = Some p
            \<longrightarrow> bestBid (pollBids options getBids lag W st) = Some p) \<and>
     ((bestBid (pollBids options getBids lag W st) = bestBid st \<and>
       (\<forall>k. rounds st \<le> k \<and> k < rounds (pollBids options getBids lag W st)
             \<longrightarrow> roundEligible options getBids k = [])) \<or>
      (\<exists>k. rounds st \<le> k \<and> k < rounds (pollBids options getBids lag W st) \<and>
           roundEligible options getBids k \<noteq> [] \<and>
           bestBid (pollBids options getBids lag W st) = Some (selectedIn options getBids k) \<and>
           (\<forall>j. k < j \<and> j < rounds (pollBids options getBids lag W st)
                 \<longrightarrow> roundEligible options getBids j = [])))"
proof (induction st rule: pollBids_induct2 [where W = W and lag = lag])
  case (stop st)
  then show ?case by (auto simp add: pollBids_stop)
next
  case (round st)
  let ?r = "pollBids options getBids lag W st"
  from round.hyps show ?case
  proof (cases rule: pollBids_cases [where options = options and getBids = getBids and lag = lag])
    case (preferred p)
    have r: "rounds ?r = rounds st + 1" "bestBid ?r = Some p"
      by (subst preferred(2), simp add: afterRound_def)+
    have k: "k = rounds st" if "rounds st \<le> k" "k < rounds ?r" for k
      using that r(1) by simp
    have 1: "\<forall>k q. rounds st \<le> k \<and> k < rounds ?r \<and> roundPreferred options getBids k = Some q
            \<longrightarrow> bestBid ?r = Some q"
      using k preferred(1) r(2) by (metis option.inject)
    have 2: "rounds st \<le> rounds st \<and> rounds st < rounds ?r \<and>
           roundEligible options getBids (rounds st) \<noteq> [] \<and>
           bestBid ?r = Some (selectedIn options getBids (rounds st)) \<and>
           (\<forall>j. rounds st < j \<and> j < rounds ?r \<longrightarrow> roundEligible options getBids j = [])"
      using r preferred(1) roundPreferred_eligible [OF preferred(1)] by (auto simp add: selectedIn_def)
    show ?thesis using 1 2 by blast
  next
    case lowest
    have r: "rounds ?r = rounds st + 1"
      "bestBid ?r = Some (lowestBid (roundEligible options getBids (rounds st)))"
      by (subst lowest(4), simp add: afterRound_def)+
    have k: "k = rounds st" if "rounds st \<le> k" "k < rounds ?r" for k
      using that r(1) by simp
    have 1: "\<forall>k q. rounds st \<le> k \<and> k < rounds ?r \<and> roundPreferred options getBids k = Some q
            \<longrightarrow> bestBid ?r = Some q"
      using k lowest(1) by (metis option.distinct(1))
    have 2: "rounds st \<le> rounds st \<and> rounds st < rounds ?r \<and>
           roundEligible options getBids (rounds st) \<noteq> [] \<and>
           bestBid ?r = Some (selectedIn options getBids (rounds st)) \<and>
           (\<forall>j. rounds st < j \<and> j < rounds ?r \<longrightarrow> roundEligible options getBids j = [])"
      using r lowest(1,2) by (auto simp add: selectedIn_def)
    show ?thesis using 1 2 by blast
  next
    case (continue st')
    note ih = round.IH [OF continue(3,4)]
    define r' where "r' = pollBids options getBids lag W st'"
    have rr: "?r = r'" using continue(2) by (simp add: r'_def)
    have mono: "rounds st + 1 \<le> rounds r'"
      using pollBids_progress [of st' options getBids lag W] continue(3) by (simp add: r'_def)
    from ih have ih1: "\<forall>k p. rounds st + 1 \<le> k \<and> k < rounds r' \<and>
            roundPreferred options getBids k = Some p \<longrightarrow> bestBid r' = Some p"
      unfolding r'_def [symmetric] continue(3) by blast
    from ih have ih2: "(bestBid r' = bestBid st' \<and>
       (\<forall>k. rounds st + 1 \<le> k \<and> k < rounds r' \<longrightarrow> roundEligible options getBids k = [])) \<or>
      (\<exists>k. rounds st + 1 \<le> k \<and> k < rounds r' \<and> roundEligible options getBids k \<noteq> [] \<and>
           bestBid r' = Some (selectedIn options getBids k) \<and>
           (\<forall>j. k < j \<and> j < rounds r' \<longrightarrow> roundEligible options getBids j = []))"
      unfolding r'_def [symmetric] continue(3) by blast
    have 1: "\<forall>k p. rounds st \<le> k \<and> k < rounds r' \<and> roundPreferred options getBids k = Some p
            \<longrightarrow> bestBid r' = Some p"
    proof (intro allI impI)
      fix k p assume a: "rounds st \<le> k \<and> k < rounds r' \<and> roundPreferred options getBids k = Some p"
      show "bestBid r' = Some p"
      proof (cases "k = rounds st")
        case True
        with a continue(1) show ?thesis by simp
      next
        case False
        with a have "rounds st + 1 \<le> k" by simp
        with a ih1 show ?thesis by blast
      qed
    qed
    have 2: "(bestBid r' = bestBid st \<and>
       (\<forall>k. rounds st \<le> k \<and> k < rounds r' \<longrightarrow> roundEligible options getBids k = [])) \<or>
      (\<exists>k. rounds st \<le> k \<and> k < rounds r' \<and> roundEligible options getBids k \<noteq> [] \<and>
           bestBid r' = Some (selectedIn options getBids k) \<and>
           (\<forall>j. k < j \<and> j < rounds r' \<longrightarrow> roundEligible options getBids j = []))"
      using ih2
    proof (elim disjE conjE exE)
      assume b: "bestBid r' = bestBid st'"
        and e: "\<forall>k. rounds st + 1 \<le> k \<and> k < rounds r' \<longrightarrow> roundEligible options getBids k = []"
      show ?thesis
      proof (cases "roundEligible options getBids (rounds st) = []")
        case True
        have "\<forall>k. rounds st \<le> k \<and> k < rounds r' \<longrightarrow> roundEligible options getBids k = []"
        proof (intro allI impI)
          fix k assume "rounds st \<le> k \<and> k < rounds r'"
          then show "roundEligible options getBids k = []"
            using True e by (cases "k = rounds st") auto
        qed
        moreover have "bestBid r' = bestBid st" using b continue(5) True by simp
        ultimately show ?thesis by blast
      next
        case False
        have "bestBid r' = Some (selectedIn options getBids (rounds st))"
          using b continue(5) continue(1) False by (simp add: selectedIn_def)
        moreover have "rounds st < rounds r'" using mono by simp
        moreover have "\<forall>j. rounds st < j \<and> j < rounds r' \<longrightarrow> roundEligible options getBids j = []"
          using e by auto
        ultimately show ?thesis using False by blast
      qed
    next
      fix k assume "rounds st + 1 \<le> k" "k < rounds r'" "roundEligible options getBids k \<noteq> []"
        "bestBid r' = Some (selectedIn options getBids k)"
        "\<forall>j. k < j \<and> j < rounds r' \<longrightarrow> roundEligible options getBids j = []"
      then have "rounds st \<le> k \<and> k < rounds r' \<and> roundEligible options getBids k \<noteq> [] \<and>
           bestBid r' = Some (selectedIn options getBids k) \<and>
           (\<forall>j. k < j \<and> j < rounds r' \<longrightarrow> roundEligible options getBids j = [])" by simp
      then show ?thesis by blast
    qed
    show ?thesis unfolding rr using 1 2 by blast
  qed
qed

lemma selectedIn_eligible:
  assumes "roundEligible options getBids k \<noteq> []"
  shows "selectedIn options getBids k \<in> set (roundEligible options getBids k)"
proof (cases "roundPreferred options getBids k")
  case None
  then show ?thesis using lowestBid_min [OF assms] by (simp add: selectedIn_def)
next
  case (Some p)
  then show ?thesis using preferredBid_Some [of options "roundEligible options getBids k" p]
    by (simp add: selectedIn_def roundPreferred_def)
qed

lemma roundEligible_price:
  assumes "b \<in> set (roundEligible options getBids k)" "maxPrice options = Some m" "0 < m"
  shows "js_le (bidPrice b) (Num m)"
proof (cases "getBids k")
  case (Inl e)
  with assms(1) show ?thesis by (simp add: roundEligible_def)
next
  case (Inr bs)
  with assms(1) have "b \<in> set (eligibleBids options bs)" by (simp add: roundEligible_def)
  then show ?thesis using assms(2,3) by (rule eligibleBids_price)
qed

subsection \<open>C1: the bid that is accepted\<close>

text \<open>
  C1. Let \<open>r\<close> be the state in which the polling loop ends; its \<open>bestBid\<close> is the bid the
  operation accepts. If a maximum price greater than 0 is set, the price amount of the
  accepted bid, as \<open>parseInt\<close> reads it, is at most that maximum. If in some polling round
  the eligible bids hold one of the preferred provider, the first such bid is the accepted
  bid. Otherwise the accepted bid is an eligible bid of a polling round, the last round
  that had eligible bids, and no eligible bid of that round has a lower price amount.
\<close>

theorem accepted_bid:
  assumes "r = pollBids options getBids lag (waitTimeMs options) initialPoll"
  shows "(\<forall>b m. bestBid r = Some b \<and> maxPrice options = Some m \<and> 0 < m
            \<longrightarrow> js_le (bidPrice b) (Num m)) \<and>
         (\<forall>k p. k < rounds r \<and> roundPreferred options getBids k = Some p
            \<longrightarrow> bestBid r = Some p \<and> p \<in> set (roundEligible options getBids k) \<and>
                bid_provider (bidId p) = the (preferredProvider options)) \<and>
         (\<forall>b. bestBid r = Some b \<and> (\<forall>k<rounds r. roundPreferred options getBids k = None)
            \<longrightarrow> (\<exists>k<rounds r. b \<in> set (roundEligible options getBids k) \<and>
                   (\<forall>b'\<in>set (roundEligible options getBids k). \<not> js_lt (bidPrice b') (bidPrice b)) \<and>
                   (\<forall>j. k < j \<and> j < rounds r \<longrightarrow> roundEligible options getBids j = [])))"
proof -
  have i: "rounds initialPoll = 0" "bestBid initialPoll = None"
    by (simp_all add: initialPoll_def)
  note sel = pollBids_selection [where st = initialPoll and options = options and getBids = getBids
        and lag = lag and W = "waitTimeMs options", unfolded i, folded assms]
  from sel have pref: "\<forall>k p. k < rounds r \<and> roundPreferred options getBids k = Some p
      \<longrightarrow> bestBid r = Some p" by simp
  from sel have last: "bestBid r = None \<or>
      (\<exists>k<rounds r. roundEligible options getBids k \<noteq> [] \<and>
           bestBid r = Some (selectedIn options getBids k) \<and>
           (\<forall>j. k < j \<and> j < rounds r \<longrightarrow> roundEligible options getBids j = []))" by blast
  have a: "\<forall>b m. bestBid r = Some b \<and> maxPrice options = Some m \<and> 0 < m
            \<longrightarrow> js_le (bidPrice b) (Num m)"
  proof (intro allI impI)
    fix b m assume h: "bestBid r = Some b \<and> maxPrice options = Some m \<and> 0 < m"
    with last obtain k where "roundEligible options getBids k \<noteq> []" "b = selectedIn options getBids k"
      by auto
    then have "b \<in> set (roundEligible options getBids k)" using selectedIn_eligible by blast
    then show "js_le (bidPrice b) (Num m)" using h roundEligible_price by blast
  qed
  have b: "\<forall>k p. k < rounds r \<and> roundPreferred options getBids k = Some p
            \<longrightarrow> bestBid r = Some p \<and> p \<in> set (roundEligible options getBids k) \<and>
                bid_provider (bidId p) = the (preferredProvider options)"
    using pref preferredBid_Some unfolding roundPreferred_def by blast
  have c: "\<forall>b. bestBid r = Some b \<and> (\<forall>k<rounds r. roundPreferred options getBids k = None)
            \<longrightarrow> (\<exists>k<rounds r. b \<in> set (roundEligible options getBids k) \<and>
                   (\<forall>b'\<in>set (roundEligible options getBids k). \<not> js_lt (bidPrice b') (bidPrice b)) \<and>
                   (\<forall>j. k < j \<and> j < rounds r \<longrightarrow> roundEligible options getBids j = []))"
  proof (intro allI impI)
    fix b assume h: "bestBid r = Some b \<and> (\<forall>k<rounds r. roundPreferred options getBids k = None)"
    with last obtain k where k: "k < rounds r" "roundEligible options getBids k \<noteq> []"
      "b = selectedIn options getBids k"
      "\<forall>j. k < j \<and> j < rounds r \<longrightarrow> roundEligible options getBids j = []"
      by auto
    from h k(1) have "roundPreferred options getBids k = None" by blast
    then have "b = lowestBid (roundEligible options getBids k)" using k(3) by (simp add: selectedIn_def)
    with lowestBid_min [OF k(2)] k(1,4)
    show "\<exists>k<rounds r. b \<in> set (roundEligible options getBids k) \<and>
                   (\<forall>b'\<in>set (roundEligible options getBids k). \<not> js_lt (bidPrice b') (bidPrice b)) \<and>
                   (\<forall>j. k < j \<and> j < rounds r \<longrightarrow> roundEligible options getBids j = [])"
      by blast
  qed
  show ?thesis using a b c by blast
qed

end
